theory Spec2Isabelle
  imports Complex_Main
begin

section \<open>The bug-platform environment\<close>

text \<open>
  A shallow embedding of \<^verbatim>\<open>BugPlatformEnv\<close> as it is written in
  \<^verbatim>\<open>src/bug_platform_env.py\<close> (preset v0) and \<^verbatim>\<open>src/bug_platform_env_v1.py\<close>
  (preset v1).  The two files share their control flow; where they differ (the
  hitbox used against the wall, four reward literals, the idle-penalty
  condition, the stagnation window) the model branches on the \<open>version\<close> of the
  configuration.

  Numbers: the Python integers (\<open>steps\<close>, \<open>jump_cooldown\<close>, \<open>prev_jump\<close>, the two
  action components) are \<open>int\<close>.  The floating-point quantities are modelled as
  exact reals: the casts to 32-bit floats (\<^verbatim>\<open>np.array(..., dtype=np.float32)\<close>,
  \<^verbatim>\<open>np.float32(y)\<close>) are the identity here, and every arithmetic operation is
  exact.  What is proved below is therefore the behaviour of the branching
  and of the arithmetic up to rounding.
\<close>

subsection \<open>Configuration: the attributes set in \<^verbatim>\<open>__init__\<close>\<close>

datatype version = V0 | V1

type_synonym platform = "real \<times> real \<times> real"

record config =
  version :: version
  speed_factor :: real
  jump_cooldown_max :: int
  player_width :: real
  player_height :: real
  player_half_width :: real
  hitbox_height :: real
  dt :: real
  max_steps :: int
  gravity :: real
  move_speed :: real
  jump_speed :: real
  start_x :: real
  start_y :: real
  flag_x :: real
  flag_y :: real
  wall_x :: real
  wall_width :: real
  wall_height :: real
  bug_gap_y_min :: real
  bug_gap_y_max :: real
  platform_thickness :: real
  platforms :: "platform list"
  stagnation_window :: nat
  stagnation_threshhold :: real

text \<open>
  Preset v0 (\<^verbatim>\<open>bug_platform_env.py\<close>).  That file has no \<^verbatim>\<open>hitbox_height\<close> and no
  stagnation attributes; the three fields are never read when the version is
  \<open>V0\<close>.
\<close>

definition v0 :: config where
  "v0 = \<lparr> version = V0,
           speed_factor = 0.1,
           jump_cooldown_max = 60,
           player_width = 0.6,
           player_height = 0.6,
           player_half_width = 0.6 / 2,
           hitbox_height = 0.6,
           dt = 0.02,
           max_steps = 1000,
           gravity = - 30.0,
           move_speed = 4.0,
           jump_speed = 12.0,
           start_x = 1.0,
           start_y = 0.0,
           flag_x = 20.0,
           flag_y = 0.0,
           wall_x = 10.0,
           wall_width = 0.6,
           wall_height = 7.0,
           bug_gap_y_min = 1.0,
           bug_gap_y_max = 3.0,
           platform_thickness = 0.2,
           platforms = [(4.0, 8.5, 1.5), (6.0, 9.0, 3.0), (5.0, 6.5, 4.5), (7.0, 10.0, 6.0)],
           stagnation_window = 0,
           stagnation_threshhold = 0 \<rparr>"

text \<open>Preset v1 (\<^verbatim>\<open>bug_platform_env_v1.py\<close>).\<close>

definition v1 :: config where
  "v1 = \<lparr> version = V1,
           speed_factor = 0.1,
           jump_cooldown_max = 40,
           player_width = 0.6,
           player_height = 0.6,
           player_half_width = 0.6 / 2,
           hitbox_height = 0.6 / 6.0,
           dt = 0.02,
           max_steps = 1000,
           gravity = - 30.0,
           move_speed = 4.0,
           jump_speed = 12.0,
           start_x = 1.0,
           start_y = 0.0,
           flag_x = 20.0,
           flag_y = 0.0,
           wall_x = 14.0,
           wall_width = 0.6,
           wall_height = 8.5,
           bug_gap_y_min = 5.5,
           bug_gap_y_max = 5.5 + (0.6 / 6.0) * 3,
           platform_thickness = 0.2,
           platforms = [(9.0, 12.5, 1.5), (6.0, 9.5, 3.0), (8.5, 12.0, 4.5),
                        (5.5, 10.5, 6.0), (9.5, 13.5, 7.5)],
           stagnation_window = 100,
           stagnation_threshhold = 2 \<rparr>"

subsection \<open>The mutable attributes of an instance\<close>

text \<open>
  \<open>state\<close> is \<open>None\<close> until the first \<^verbatim>\<open>reset\<close>, as in \<^verbatim>\<open>__init__\<close>.
  \<open>np_random_seed\<close> stands for the random generator of the base class
  \<^verbatim>\<open>gym.Env\<close> (a library, outside the repository): \<^verbatim>\<open>super().reset(seed=seed)\<close>
  stores something that depends on the seed when one is given, and leaves the
  generator alone otherwise.
\<close>

record env =
  state :: "(real \<times> real \<times> real \<times> real) option"
  steps :: int
  jump_cooldown :: int
  is_jumping :: bool
  prev_jump :: int
  y_before_jump :: real
  recent_x :: "real list"
  np_random_seed :: "int option"

definition init_env :: env where
  "init_env = \<lparr> state = None, steps = 0, jump_cooldown = 0, is_jumping = False,
                 prev_jump = 0, y_before_jump = 0.0, recent_x = [],
                 np_random_seed = None \<rparr>"

record step_result =
  obs :: "real list"
  reward :: real
  terminated :: bool
  truncated :: bool

datatype error = TypeError | GymError

subsection \<open>\<^verbatim>\<open>_on_ground\<close>, \<^verbatim>\<open>_reached_flag\<close>, \<^verbatim>\<open>_get_obs\<close>\<close>

definition on_ground :: "config \<Rightarrow> real \<Rightarrow> real \<Rightarrow> bool" where
  "on_ground cfg x y =
     (let eps = 0.001;
          player_left = x - player_half_width cfg;
          player_right = x + player_half_width cfg
      in if \<bar>y\<bar> < eps then True
         else if list_ex (\<lambda>(px1, px2, py).
                     \<bar>y - (py + platform_thickness cfg)\<bar> < eps
                     \<and> player_right > px1 \<and> player_left < px2) (platforms cfg)
           then True
         else if \<bar>y - wall_height cfg\<bar> < eps then True
         else if \<bar>y - bug_gap_y_min cfg\<bar> < eps then True
         else False)"

definition reached_flag :: "config \<Rightarrow> real \<Rightarrow> real \<Rightarrow> bool" where
  "reached_flag cfg x y \<longleftrightarrow> \<bar>x - flag_x cfg\<bar> < 0.5 \<and> \<bar>y - flag_y cfg\<bar> < 0.5"

definition get_obs :: "config \<Rightarrow> int \<Rightarrow> real \<times> real \<times> real \<times> real \<Rightarrow> real list" where
  "get_obs cfg cooldown st =
     (case st of (x, y, vx, vy) \<Rightarrow>
        let cooldown_norm = real_of_int cooldown / real_of_int (jump_cooldown_max cfg);
            distance_to_flag = flag_x cfg - x;
            distance_to_wall = wall_x cfg - x;
            grounded = (if on_ground cfg x y then 1.0 else 0.0)
        in [x, y, vx, vy, cooldown_norm, distance_to_flag, distance_to_wall, grounded])"

subsection \<open>\<^verbatim>\<open>reset\<close>\<close>

definition deque_append :: "nat \<Rightarrow> real list \<Rightarrow> real \<Rightarrow> real list" where
  "deque_append maxlen xs x = (if length xs = maxlen then tl xs @ [x] else xs @ [x])"

text \<open>
  \<^verbatim>\<open>super().reset(seed=seed)\<close>, the first statement of \<^verbatim>\<open>reset\<close>.  The base
  class \<^verbatim>\<open>gym.Env\<close> belongs to a library, not to the repository: with no seed
  it leaves the generator alone; with a seed it re-creates the generator from
  it, and its seeding function raises \<^verbatim>\<open>gymnasium.error.Error\<close> for a negative
  integer.  The exception leaves \<^verbatim>\<open>reset\<close> before anything is assigned.
\<close>

definition seed_accepted :: "int option \<Rightarrow> bool" where
  "seed_accepted seed = (case seed of None \<Rightarrow> True | Some s \<Rightarrow> 0 \<le> s)"

definition base_reset :: "int option \<Rightarrow> env \<Rightarrow> error + env" where
  "base_reset seed e =
     (case seed of
        None \<Rightarrow> Inr e
      | Some s \<Rightarrow> if 0 \<le> s then Inr (e\<lparr>np_random_seed := Some s\<rparr>) else Inl GymError)"

text \<open>The rest of \<^verbatim>\<open>reset\<close>, after the call of the base class has returned.\<close>

definition reset_body :: "config \<Rightarrow> env \<Rightarrow> env \<times> real list" where
  "reset_body cfg e =
     (let e = e\<lparr>jump_cooldown := 0, is_jumping := False, prev_jump := 0\<rparr>;
          st = (start_x cfg, start_y cfg, 0.0, 0.0);
          e = e\<lparr>state := Some st, steps := 0\<rparr>;
          e = (case version cfg of V0 \<Rightarrow> e
               | V1 \<Rightarrow> e\<lparr>recent_x := deque_append (stagnation_window cfg) [] (start_x cfg)\<rparr>)
      in (e, get_obs cfg (jump_cooldown e) st))"

definition reset :: "config \<Rightarrow> int option \<Rightarrow> env \<Rightarrow> error + env \<times> real list" where
  "reset cfg seed e =
     (case base_reset seed e of
        Inl err \<Rightarrow> Inl err
      | Inr e \<Rightarrow> Inr (reset_body cfg e))"

subsection \<open>\<^verbatim>\<open>step\<close>: action interpretation\<close>

definition tick_cooldown :: "int \<Rightarrow> int" where
  "tick_cooldown c = (if c > 0 then c - 1 else c)"

definition jump_pressed :: "env \<Rightarrow> int \<Rightarrow> bool" where
  "jump_pressed e jump \<longleftrightarrow> jump = 1 \<and> prev_jump e = 0"

definition control_vx :: "config \<Rightarrow> int \<Rightarrow> real" where
  "control_vx cfg movement =
     (if movement = 1 then - move_speed cfg
      else if movement = 2 then move_speed cfg
      else 0.0)"

text \<open>The condition under which the body of the jump block runs.\<close>

definition jump_triggers :: "config \<Rightarrow> env \<Rightarrow> real \<times> real \<times> real \<times> real \<Rightarrow> int \<Rightarrow> bool" where
  "jump_triggers cfg e st jump =
     (case st of (x, y, vx, vy) \<Rightarrow>
        (jump_pressed e jump \<and> vy < 0.001 \<and> tick_cooldown (jump_cooldown e) = 0)
        \<and> on_ground cfg x y)"

text \<open>
  The bookkeeping of the first part of \<^verbatim>\<open>step\<close>: cooldown tick, step count,
  the jump block, and the unconditional update of \<^verbatim>\<open>prev_jump\<close>.  Returns the
  updated instance and the vertical velocity before gravity.
\<close>

definition apply_action ::
  "config \<Rightarrow> env \<Rightarrow> real \<times> real \<times> real \<times> real \<Rightarrow> int \<times> int \<Rightarrow> env \<times> real" where
  "apply_action cfg e st a =
     (case st of (x, y, vx, vy) \<Rightarrow> case a of (movement, jump) \<Rightarrow>
        let trig = jump_triggers cfg e st jump;
            e = e\<lparr>jump_cooldown := tick_cooldown (jump_cooldown e)\<rparr>;
            e = e\<lparr>steps := steps e + 1\<rparr>;
            (e, vy) = (if trig
                       then (e\<lparr>y_before_jump := y, is_jumping := True,
                               jump_cooldown := jump_cooldown_max cfg\<rparr>, jump_speed cfg)
                       else (e, vy));
            e = e\<lparr>prev_jump := jump\<rparr>
        in (e, vy))"

subsection \<open>\<^verbatim>\<open>step\<close>: collisions\<close>

definition ground_collision :: "real \<times> real \<Rightarrow> real \<times> real" where
  "ground_collision p = (case p of (y_new, vy) \<Rightarrow> if y_new < 0.0 then (0.0, 0.0) else (y_new, vy))"

text \<open>The \<^verbatim>\<open>for\<close> loop over the platforms, with its \<^verbatim>\<open>break\<close>.\<close>

fun platform_scan :: "config \<Rightarrow> platform list \<Rightarrow> real \<Rightarrow> real \<Rightarrow> real \<times> real \<Rightarrow> real \<times> real" where
  "platform_scan cfg [] y x_new (y_new, vy) = (y_new, vy)"
| "platform_scan cfg ((px1, px2, py) # rest) y x_new (y_new, vy) =
     (if y \<ge> py + platform_thickness cfg \<and> y_new \<le> py + platform_thickness cfg then
        (let player_left_new = x_new - player_half_width cfg;
             player_right_new = x_new + player_half_width cfg;
             is_over_platform = (player_right_new > px1 \<and> player_left_new < px2)
         in if is_over_platform then (py + platform_thickness cfg, 0.0)
            else platform_scan cfg rest y x_new (y_new, vy))
      else platform_scan cfg rest y x_new (y_new, vy))"

definition platform_collision :: "config \<Rightarrow> real \<Rightarrow> real \<Rightarrow> real \<times> real \<Rightarrow> real \<times> real" where
  "platform_collision cfg y x_new p =
     (case p of (y_new, vy) \<Rightarrow>
        if vy < 0.0 then platform_scan cfg (platforms cfg) y x_new (y_new, vy)
        else (y_new, vy))"

text \<open>
  The height of the box tested against the wall: \<^verbatim>\<open>player_height\<close> in v0,
  \<^verbatim>\<open>hitbox_height\<close> in v1.
\<close>

definition wall_hitbox :: "config \<Rightarrow> real" where
  "wall_hitbox cfg = (case version cfg of V0 \<Rightarrow> player_height cfg | V1 \<Rightarrow> hitbox_height cfg)"

definition wall_left :: "config \<Rightarrow> real" where
  "wall_left cfg = wall_x cfg - (wall_width cfg / 2)"

definition wall_right :: "config \<Rightarrow> real" where
  "wall_right cfg = wall_x cfg + (wall_width cfg / 2)"

definition inside_wall_vertical :: "config \<Rightarrow> real \<Rightarrow> bool" where
  "inside_wall_vertical cfg y_new \<longleftrightarrow>
     y_new < wall_height cfg \<and> y_new + wall_hitbox cfg > 0.0"

definition inside_wall_horizontal :: "config \<Rightarrow> real \<Rightarrow> bool" where
  "inside_wall_horizontal cfg x_new \<longleftrightarrow>
     x_new + player_half_width cfg > wall_left cfg \<and> x_new - player_half_width cfg < wall_right cfg"

definition in_bug_gap :: "config \<Rightarrow> real \<Rightarrow> bool" where
  "in_bug_gap cfg y \<longleftrightarrow> bug_gap_y_min cfg \<le> y \<and> y \<le> bug_gap_y_max cfg"

definition within_wall_height :: "config \<Rightarrow> real \<Rightarrow> bool" where
  "within_wall_height cfg y \<longleftrightarrow> y < wall_height cfg"

definition wall_collision ::
  "config \<Rightarrow> real \<Rightarrow> real \<Rightarrow> real \<times> real \<times> real \<times> real \<Rightarrow> real \<times> real \<times> real \<times> real" where
  "wall_collision cfg x y p =
     (case p of (x_new, y_new, vx, vy) \<Rightarrow>
        let hitbox_bottom_new = y_new;
            hitbox_top_new = y_new + wall_hitbox cfg
        in if inside_wall_horizontal cfg x_new \<and> inside_wall_vertical cfg y_new then
             if in_bug_gap cfg y then
               if hitbox_bottom_new \<le> bug_gap_y_min cfg then (x_new, bug_gap_y_min cfg, vx, 0.0)
               else if hitbox_top_new \<ge> bug_gap_y_max cfg
                 then (x_new, bug_gap_y_max cfg - wall_hitbox cfg, vx, vy)
               else (x_new, y_new, vx, vy)
             else if \<not> within_wall_height cfg y then
               if hitbox_bottom_new \<le> wall_height cfg then (x_new, wall_height cfg, vx, 0.0)
               else (x_new, y_new, vx, vy)
             else if x < wall_x cfg then (wall_left cfg - player_half_width cfg, y_new, 0.0, vy)
             else (wall_right cfg + player_half_width cfg, y_new, 0.0, vy)
           else (x_new, y_new, vx, vy))"

text \<open>
  Gravity, integration, ground and platforms: the proposed position and
  velocity that the wall test receives.
\<close>

definition propose ::
  "config \<Rightarrow> real \<Rightarrow> real \<Rightarrow> real \<Rightarrow> real \<Rightarrow> real \<times> real \<times> real \<times> real" where
  "propose cfg x y vx vy =
     (let vy = vy + gravity cfg * dt cfg;
          x_new = x + vx * dt cfg;
          y_new = y + vy * dt cfg;
          (y_new, vy) = ground_collision (y_new, vy);
          (y_new, vy) = platform_collision cfg y x_new (y_new, vy)
      in (x_new, y_new, vx, vy))"

subsection \<open>\<^verbatim>\<open>step\<close>: reward terms\<close>

definition jump_held_penalty :: "config \<Rightarrow> int \<Rightarrow> real" where
  "jump_held_penalty cfg jump =
     (if jump = 1 then (case version cfg of V0 \<Rightarrow> - 0.02 | V1 \<Rightarrow> - 0.01) else 0)"

definition progress_reward :: "config \<Rightarrow> real \<Rightarrow> real \<Rightarrow> real" where
  "progress_reward cfg x x_new =
     (let dist_prev = \<bar>flag_x cfg - x\<bar>; dist_curr = \<bar>flag_x cfg - x_new\<bar>
      in (dist_prev - dist_curr) / 5)"

definition ascent_reward :: "config \<Rightarrow> real \<Rightarrow> real \<Rightarrow> real" where
  "ascent_reward cfg y y_new =
     (if y_new - y > 0
      then (case version cfg of V0 \<Rightarrow> (y_new - y) / 5 | V1 \<Rightarrow> (y_new - y) / 10)
      else 0)"

text \<open>
  The staying-still penalty: v0 tests \<^verbatim>\<open>abs(vx) < eps and not self.is_jumping\<close>,
  v1 tests \<^verbatim>\<open>abs(vx) < eps\<close> alone.
\<close>

definition idle_penalty :: "config \<Rightarrow> bool \<Rightarrow> real \<Rightarrow> real" where
  "idle_penalty cfg jumping vx =
     (let eps = 0.001
      in case version cfg of
           V0 \<Rightarrow> (if \<bar>vx\<bar> < eps \<and> \<not> jumping then - 0.05 else 0)
         | V1 \<Rightarrow> (if \<bar>vx\<bar> < eps then - 0.05 else 0))"

definition landing_now :: "config \<Rightarrow> bool \<Rightarrow> real \<Rightarrow> real \<Rightarrow> real \<Rightarrow> bool" where
  "landing_now cfg jumping x_new y_new vy \<longleftrightarrow>
     jumping \<and> on_ground cfg x_new y_new \<and> \<bar>vy\<bar> < 0.001"

definition landing_reward :: "config \<Rightarrow> real \<Rightarrow> real \<Rightarrow> real" where
  "landing_reward cfg y_before y_new =
     (let height_gained = y_new - y_before
      in if height_gained < - 0.2 then 0
         else if height_gained < 0.2 then (case version cfg of V0 \<Rightarrow> - 1.0 | V1 \<Rightarrow> - 0.4)
         else 0.2)"

definition list_min :: "real list \<Rightarrow> real" where
  "list_min xs = fold min (tl xs) (hd xs)"

definition list_max :: "real list \<Rightarrow> real" where
  "list_max xs = fold max (tl xs) (hd xs)"

text \<open>
  The stagnation penalty of v1, on the window after \<^verbatim>\<open>x_new\<close> was appended.
  The window then holds at least one element, so \<^verbatim>\<open>min\<close> and \<^verbatim>\<open>max\<close> are
  defined whenever they are called.
\<close>

definition stagnation_penalty :: "config \<Rightarrow> real list \<Rightarrow> real" where
  "stagnation_penalty cfg window =
     (if length window = stagnation_window cfg
      then (let x_min = list_min window; x_max = list_max window
            in if x_max - x_min < stagnation_threshhold cfg then - 0.03 else 0)
      else 0)"

definition terminal_bonus :: "config \<Rightarrow> int \<Rightarrow> real" where
  "terminal_bonus cfg n =
     (let time_left = max_steps cfg - n
      in 10.0 + speed_factor cfg * real_of_int time_left)"

subsection \<open>\<^verbatim>\<open>step\<close>\<close>

text \<open>
  The second half of \<^verbatim>\<open>step\<close>, from the assignment of \<^verbatim>\<open>self.state\<close> to the
  \<^verbatim>\<open>return\<close>: \<open>e\<close> is the instance after the jump block, \<open>x\<close> and \<open>y\<close> the
  pre-step position, \<open>reward0\<close> what was accumulated so far, and \<open>p\<close> the
  position and velocity after all collisions.
\<close>

definition finish_step ::
  "config \<Rightarrow> env \<Rightarrow> real \<Rightarrow> real \<Rightarrow> real \<Rightarrow> real \<times> real \<times> real \<times> real \<Rightarrow> env \<times> step_result" where
  "finish_step cfg e x y reward0 p =
     (case p of (x_new, y_new, vx, vy) \<Rightarrow>
        let e = e\<lparr>state := Some (x_new, y_new, vx, vy)\<rparr>;
            reward = reward0 + progress_reward cfg x x_new;
            reward = reward + ascent_reward cfg y y_new;
            reward = reward - 0.01;
            reward = reward + idle_penalty cfg (is_jumping e) vx;
            (e, reward) =
               (if landing_now cfg (is_jumping e) x_new y_new vy
                then (e\<lparr>is_jumping := False\<rparr>,
                      reward + landing_reward cfg (y_before_jump e) y_new)
                else (e, reward));
            (e, reward) =
               (case version cfg of
                  V0 \<Rightarrow> (e, reward)
                | V1 \<Rightarrow>
                   (let window = deque_append (stagnation_window cfg) (recent_x e) x_new
                    in (e\<lparr>recent_x := window\<rparr>, reward + stagnation_penalty cfg window)));
            flag = reached_flag cfg x_new y_new;
            reward = (if flag then reward + terminal_bonus cfg (steps e) else reward);
            terminated = flag;
            truncated = (steps e \<ge> max_steps cfg)
        in (e, \<lparr> obs = get_obs cfg (jump_cooldown e) (x_new, y_new, vx, vy),
                 reward = reward, terminated = terminated, truncated = truncated \<rparr>))"

definition step_core ::
  "config \<Rightarrow> env \<Rightarrow> real \<times> real \<times> real \<times> real \<Rightarrow> int \<times> int \<Rightarrow> env \<times> step_result" where
  "step_core cfg e st a =
     (case st of (x, y, vx0, vy0) \<Rightarrow> case a of (movement, jump) \<Rightarrow>
        let reward = 0.0;
            reward = reward + jump_held_penalty cfg jump;
            vx = control_vx cfg movement;
            (e, vy) = apply_action cfg e st a;
            p = wall_collision cfg x y (propose cfg x y vx vy)
        in finish_step cfg e x y reward p)"

text \<open>
  \<^verbatim>\<open>x, y, vx, vy = self.state\<close> raises \<^verbatim>\<open>TypeError\<close> while the state is still
  \<^verbatim>\<open>None\<close>; this is the only way \<^verbatim>\<open>step\<close> fails on a pair of integers.  The
  state is \<^verbatim>\<open>None\<close> only before the first \<^verbatim>\<open>reset\<close>, when the cooldown is 0, so
  the cooldown tick that precedes the unpacking changes nothing then.
\<close>

definition step :: "config \<Rightarrow> env \<Rightarrow> int \<times> int \<Rightarrow> error + env \<times> step_result" where
  "step cfg e a = (case state e of None \<Rightarrow> Inl TypeError | Some st \<Rightarrow> Inr (step_core cfg e st a))"

text \<open>A sequence of steps: the instance after each step and what each step returned.\<close>

fun run :: "config \<Rightarrow> env \<Rightarrow> (int \<times> int) list \<Rightarrow> error + env \<times> step_result list" where
  "run cfg e [] = Inr (e, [])"
| "run cfg e (a # as) =
     (case step cfg e a of
        Inl err \<Rightarrow> Inl err
      | Inr (e', r) \<Rightarrow>
         (case run cfg e' as of
            Inl err \<Rightarrow> Inl err
          | Inr (e'', rs) \<Rightarrow> Inr (e'', r # rs)))"

subsection \<open>Derived notions used to state the properties\<close>

text \<open>
  What \<^verbatim>\<open>reset\<close> returns when the base class accepts the seed: the instance
  with the seed stored and everything else re-initialised, and the initial
  observation.
\<close>

definition reset_result :: "config \<Rightarrow> int option \<Rightarrow> env \<Rightarrow> env \<times> real list" where
  "reset_result cfg seed e =
     reset_body cfg (case seed of None \<Rightarrow> e | Some s \<Rightarrow> e\<lparr>np_random_seed := Some s\<rparr>)"

text \<open>
  The position and velocity that \<^verbatim>\<open>step\<close> hands to the wall test: the
  commanded \<open>vx\<close>, the \<open>vy\<close> left by the jump block, then gravity, integration,
  ground and platforms.
\<close>

definition proposed ::
  "config \<Rightarrow> env \<Rightarrow> real \<times> real \<times> real \<times> real \<Rightarrow> int \<times> int \<Rightarrow> real \<times> real \<times> real \<times> real" where
  "proposed cfg e st a =
     (case st of (x, y, vx0, vy0) \<Rightarrow> case a of (movement, jump) \<Rightarrow>
        propose cfg x y (control_vx cfg movement) (snd (apply_action cfg e st a)))"

text \<open>The face of the wall the lateral block pushes the player to.\<close>

definition near_face :: "config \<Rightarrow> real \<Rightarrow> real" where
  "near_face cfg x =
     (if x < wall_x cfg then wall_left cfg - player_half_width cfg
      else wall_right cfg + player_half_width cfg)"

text \<open>
  The standing surface of a platform, \<^verbatim>\<open>py + self.platform_thickness\<close>, and the
  full condition under which the scan snaps to a platform.
\<close>

definition platform_top :: "config \<Rightarrow> platform \<Rightarrow> real" where
  "platform_top cfg p = (case p of (px1, px2, py) \<Rightarrow> py + platform_thickness cfg)"

definition lands_on :: "config \<Rightarrow> platform \<Rightarrow> real \<Rightarrow> real \<Rightarrow> real \<Rightarrow> bool" where
  "lands_on cfg p y x_new y_new =
     (case p of (px1, px2, py) \<Rightarrow>
        (y \<ge> py + platform_thickness cfg \<and> y_new \<le> py + platform_thickness cfg)
        \<and> (x_new + player_half_width cfg > px1 \<and> x_new - player_half_width cfg < px2))"

text \<open>Every surface a collision can snap the player to lies at or above the ground.\<close>

definition surfaces_nonneg :: "config \<Rightarrow> bool" where
  "surfaces_nonneg cfg \<longleftrightarrow>
     list_all (\<lambda>p. 0 \<le> platform_top cfg p) (platforms cfg)
     \<and> 0 \<le> bug_gap_y_min cfg \<and> 0 \<le> bug_gap_y_max cfg - wall_hitbox cfg
     \<and> 0 \<le> wall_height cfg"

text \<open>What a caller observes of a sequence of steps: the values each step returned.\<close>

definition trajectory :: "config \<Rightarrow> env \<Rightarrow> (int \<times> int) list \<Rightarrow> error + step_result list" where
  "trajectory cfg e acts = (case run cfg e acts of Inl err \<Rightarrow> Inl err | Inr (e', rs) \<Rightarrow> Inr rs)"

text \<open>
  Two instances agree on everything \<^verbatim>\<open>step\<close> can read: \<^verbatim>\<open>y_before_jump\<close> is read
  only while \<^verbatim>\<open>is_jumping\<close> holds, and \<^verbatim>\<open>recent_x\<close> exists only in v1.
\<close>

definition same_visible :: "config \<Rightarrow> env \<Rightarrow> env \<Rightarrow> bool" where
  "same_visible cfg e1 e2 \<longleftrightarrow>
     state e1 = state e2 \<and> steps e1 = steps e2 \<and> jump_cooldown e1 = jump_cooldown e2
     \<and> is_jumping e1 = is_jumping e2 \<and> prev_jump e1 = prev_jump e2
     \<and> (is_jumping e1 \<longrightarrow> y_before_jump e1 = y_before_jump e2)
     \<and> (version cfg = V1 \<longrightarrow> recent_x e1 = recent_x e2)"





text \<open>The instance a run ends in, when no step fails.\<close>

definition final_env :: "config \<Rightarrow> env \<Rightarrow> (int \<times> int) list \<Rightarrow> env option" where
  "final_env cfg e acts = (case run cfg e acts of Inl err \<Rightarrow> None | Inr (e', rs) \<Rightarrow> Some e')"

text \<open>
  The value of \<^verbatim>\<open>self.is_jumping\<close> at the point where the reward is computed:
  set by the jump block of this very step, or left over from an earlier one.
\<close>

definition jumping_flag :: "config \<Rightarrow> env \<Rightarrow> real \<times> real \<times> real \<times> real \<Rightarrow> int \<Rightarrow> bool" where
  "jumping_flag cfg e st jump \<longleftrightarrow> jump_triggers cfg e st jump \<or> is_jumping e"

text \<open>
  What \<^verbatim>\<open>step\<close> returns in v0 for the action \<open>(0, 0)\<close> while the player stands
  at the start position, when the step count becomes \<open>n\<close>.
\<close>

definition idle_result :: "int \<Rightarrow> step_result" where
  "idle_result n = \<lparr>obs = [1, 0, 0, 0, 0, 19, 9, 1], reward = - 0.06, terminated = False,
                     truncated = (n \<ge> 1000)\<rparr>"

text \<open>The instance a run ends in and the two flags each step returned.\<close>

definition episode_flags :: "config \<Rightarrow> env \<Rightarrow> (int \<times> int) list \<Rightarrow> (env \<times> (bool \<times> bool) list) option" where
  "episode_flags cfg e acts =
     (case run cfg e acts of
        Inl err \<Rightarrow> None
      | Inr (e', rs) \<Rightarrow> Some (e', map (\<lambda>r. (terminated r, truncated r)) rs))"

text \<open>
  An instance whose player stands on the ground at \<open>x\<close> with horizontal velocity
  \<open>vx\<close>, not jumping, after \<open>n\<close> steps and with cooldown \<open>c\<close>.
\<close>

definition grounded_env :: "real \<Rightarrow> real \<Rightarrow> int \<Rightarrow> int \<Rightarrow> env" where
  "grounded_env x vx n c =
     \<lparr>state = Some (x, 0, vx, 0), steps = n, jump_cooldown = c, is_jumping = False,
      prev_jump = 0, y_before_jump = 0, recent_x = [], np_random_seed = None\<rparr>"

text \<open>
  An instance with the given state, step count and cooldown, not jumping and
  with the previous jump bit 0.
\<close>

definition plain_env :: "real \<times> real \<times> real \<times> real \<Rightarrow> int \<Rightarrow> int \<Rightarrow> env" where
  "plain_env st n c =
     \<lparr>state = Some st, steps = n, jump_cooldown = c, is_jumping = False,
      prev_jump = 0, y_before_jump = 0, recent_x = [], np_random_seed = None\<rparr>"

section \<open>Properties\<close>

lemma reset_accepted: "seed_accepted seed \<Longrightarrow> reset cfg seed e = Inr (reset_result cfg seed e)"
  by (cases seed) (simp_all add: reset_def base_reset_def reset_result_def seed_accepted_def)

lemma reset_rejected: "\<not> seed_accepted seed \<Longrightarrow> reset cfg seed e = Inl GymError"
  by (cases seed) (simp_all add: reset_def base_reset_def seed_accepted_def)


lemmas step_defs = step_def get_obs_def on_ground_def step_core_def finish_step_def
     apply_action_def jump_triggers_def jump_pressed_def tick_cooldown_def control_vx_def propose_def
     ground_collision_def platform_collision_def wall_collision_def inside_wall_horizontal_def inside_wall_vertical_def
     wall_left_def wall_right_def wall_hitbox_def in_bug_gap_def within_wall_height_def
     jump_held_penalty_def progress_reward_def ascent_reward_def idle_penalty_def landing_now_def landing_reward_def
     reached_flag_def terminal_bonus_def Let_def

subsection \<open>The wall and its gap\<close>

lemma state_step_core:
  "state (fst (step_core cfg e (x, y, vx0, vy0) (movement, jump))) =
     Some (wall_collision cfg x y (proposed cfg e (x, y, vx0, vy0) (movement, jump)))"
  by (simp add: step_core_def finish_step_def proposed_def Let_def split_beta split: version.splits)

lemma propose_vx: "propose cfg x y vx vy = (x_new, y_new, vx', vy') \<Longrightarrow> vx' = vx \<and> x_new = x + vx * dt cfg"
  by (auto simp: propose_def Let_def split: prod.splits)

text \<open>
  C1.  Whenever the proposed position overlaps the wall horizontally and
  vertically: if the pre-step \<open>y\<close> lies in \<open>[bug_gap_y_min, bug_gap_y_max]\<close>, the
  stored \<open>x\<close> is the proposed \<open>x_new\<close> and the stored \<open>vx\<close> is the commanded
  velocity (nonzero for movement 1 or 2); if the pre-step \<open>y\<close> is outside the
  band and below \<open>wall_height\<close>, the stored \<open>x\<close> is the nearer wall face and the
  stored \<open>vx\<close> is 0.
\<close>

theorem wall_gap_transparent_else_blocks:
  assumes st: "state e = Some (x, y, vx0, vy0)"
    and pr: "proposed cfg e (x, y, vx0, vy0) (movement, jump) = (x_new, y_new, vx, vy)"
    and ov: "inside_wall_horizontal cfg x_new" "inside_wall_vertical cfg y_new"
  shows "\<exists>e' r. step cfg e (movement, jump) = Inr (e', r) \<and>
           (in_bug_gap cfg y \<longrightarrow>
              (\<exists>y' vy'. state e' = Some (x_new, y', vx, vy'))
              \<and> vx = control_vx cfg movement
              \<and> ((movement = 1 \<or> movement = 2) \<and> move_speed cfg \<noteq> 0 \<longrightarrow> vx \<noteq> 0))
         \<and> (\<not> in_bug_gap cfg y \<and> y < wall_height cfg \<longrightarrow>
              (\<exists>y' vy'. state e' = Some (near_face cfg x, y', 0, vy')))"
proof -
  obtain e' r where er: "step_core cfg e (x, y, vx0, vy0) (movement, jump) = (e', r)"
    by (cases "step_core cfg e (x, y, vx0, vy0) (movement, jump)")
  have s: "step cfg e (movement, jump) = Inr (e', r)"
    using st er by (simp add: step_def)
  have se: "state e' = Some (wall_collision cfg x y (x_new, y_new, vx, vy))"
    using state_step_core [of cfg e x y vx0 vy0 movement jump] er pr by simp
  have vx: "vx = control_vx cfg movement"
    using pr propose_vx by (auto simp: proposed_def)
  have gap: "in_bug_gap cfg y \<Longrightarrow> \<exists>y' vy'. wall_collision cfg x y (x_new, y_new, vx, vy) = (x_new, y', vx, vy')"
    using ov by (simp add: wall_collision_def Let_def)
  have blk: "\<not> in_bug_gap cfg y \<Longrightarrow> y < wall_height cfg \<Longrightarrow>
      \<exists>y' vy'. wall_collision cfg x y (x_new, y_new, vx, vy) = (near_face cfg x, y', 0, vy')"
    using ov by (simp add: wall_collision_def Let_def near_face_def within_wall_height_def)
  have nz: "(movement = 1 \<or> movement = 2) \<and> move_speed cfg \<noteq> 0 \<longrightarrow> vx \<noteq> 0"
    using vx by (auto simp: control_vx_def)
  show ?thesis using s se vx gap blk nz by auto
qed

theorem wall_gap_transparent_else_blocks_witness:
  "(state (init_env\<lparr>state := Some (9.4, 1.5, 0, 0)\<rparr>) = Some (9.4, 1.5, 0, 0)
    \<and> proposed v0 (init_env\<lparr>state := Some (9.4, 1.5, 0, 0)\<rparr>) (9.4, 1.5, 0, 0) (2, 0)
          = (9.48, 1.488, 4, - 0.6)
    \<and> inside_wall_horizontal v0 9.48 \<and> inside_wall_vertical v0 1.488 \<and> in_bug_gap v0 1.5
    \<and> (\<exists>e' r y' vy'. step v0 (init_env\<lparr>state := Some (9.4, 1.5, 0, 0)\<rparr>) (2, 0) = Inr (e', r)
           \<and> state e' = Some (9.48, y', 4, vy')))
   \<and> (state (init_env\<lparr>state := Some (9.4, 0, 0, 0)\<rparr>) = Some (9.4, 0, 0, 0)
    \<and> proposed v0 (init_env\<lparr>state := Some (9.4, 0, 0, 0)\<rparr>) (9.4, 0, 0, 0) (2, 0)
          = (9.48, 0, 4, 0)
    \<and> inside_wall_horizontal v0 9.48 \<and> inside_wall_vertical v0 0
    \<and> \<not> in_bug_gap v0 0 \<and> 0 < wall_height v0
    \<and> (\<exists>e' r y' vy'. step v0 (init_env\<lparr>state := Some (9.4, 0, 0, 0)\<rparr>) (2, 0) = Inr (e', r)
           \<and> state e' = Some (9.4, y', 0, vy')))"
proof -
  let ?eA = "init_env\<lparr>state := Some (9.4, 1.5, 0, 0)\<rparr>"
  let ?eB = "init_env\<lparr>state := Some (9.4, 0, 0, 0)\<rparr>"
  have a1: "state ?eA = Some (9.4, 1.5, 0, 0)" by simp
  have a2: "proposed v0 ?eA (9.4, 1.5, 0, 0) (2, 0) = (9.48, 1.488, 4, - 0.6)"
    by (simp add: proposed_def step_defs v0_def init_env_def)
  have a3: "inside_wall_horizontal v0 9.48" "inside_wall_vertical v0 1.488" "in_bug_gap v0 1.5"
    by (simp_all add: step_defs v0_def)
  have b1: "state ?eB = Some (9.4, 0, 0, 0)" by simp
  have b2: "proposed v0 ?eB (9.4, 0, 0, 0) (2, 0) = (9.48, 0, 4, 0)"
    by (simp add: proposed_def step_defs v0_def init_env_def)
  have b3: "inside_wall_horizontal v0 9.48" "inside_wall_vertical v0 0"
           "\<not> in_bug_gap v0 0" "0 < wall_height v0"
    by (simp_all add: step_defs v0_def)
  have nf: "near_face v0 9.4 = 9.4"
    by (simp add: near_face_def step_defs v0_def)
  from wall_gap_transparent_else_blocks [OF a1 a2 a3(1) a3(2)] a3(3)
  have A: "\<exists>e' r y' vy'. step v0 ?eA (2, 0) = Inr (e', r) \<and> state e' = Some (9.48, y', 4, vy')"
    by blast
  from wall_gap_transparent_else_blocks [OF b1 b2 b3(1) b3(2)] b3(3) b3(4) nf
  have B: "\<exists>e' r y' vy'. step v0 ?eB (2, 0) = Inr (e', r) \<and> state e' = Some (9.4, y', 0, vy')"
    by (metis (no_types, lifting))
  show ?thesis using a1 a2 a3 b1 b2 b3 A B by blast
qed

subsection \<open>Platform landing\<close>

lemma platform_scan_skip:
  "\<forall>q \<in> set ps. \<not> lands_on cfg q y x_new y_new \<Longrightarrow>
   platform_scan cfg (ps @ rest) y x_new (y_new, vy) = platform_scan cfg rest y x_new (y_new, vy)"
proof (induction ps)
  case Nil
  then show ?case by simp
next
  case (Cons p ps)
  obtain px1 px2 py where p: "p = (px1, px2, py)" by (cases p)
  have "\<not> lands_on cfg p y x_new y_new" using Cons.prems by simp
  then have "platform_scan cfg (p # (ps @ rest)) y x_new (y_new, vy)
               = platform_scan cfg (ps @ rest) y x_new (y_new, vy)"
    unfolding p by (auto simp: lands_on_def Let_def)
  then show ?case using Cons by simp
qed

lemma platform_scan_hit:
  "lands_on cfg p y x_new y_new \<Longrightarrow>
   platform_scan cfg (p # rest) y x_new (y_new, vy) = (platform_top cfg p, 0)"
  by (cases p) (auto simp: lands_on_def platform_top_def Let_def)

lemma platform_scan_none:
  "\<forall>q \<in> set ps. \<not> lands_on cfg q y x_new y_new \<Longrightarrow>
   platform_scan cfg ps y x_new (y_new, vy) = (y_new, vy)"
  using platform_scan_skip [of ps cfg y x_new y_new "[]" vy] by simp

lemma platform_collision_first_match:
  "(\<not> vy < 0 \<longrightarrow> platform_collision cfg y x_new (y_new, vy) = (y_new, vy))
   \<and> (vy < 0 \<and> platforms cfg = ps @ p # rest
        \<and> (\<forall>q \<in> set ps. \<not> lands_on cfg q y x_new y_new) \<and> lands_on cfg p y x_new y_new
      \<longrightarrow> platform_collision cfg y x_new (y_new, vy) = (platform_top cfg p, 0))
   \<and> (vy < 0 \<and> (\<forall>q \<in> set (platforms cfg). \<not> lands_on cfg q y x_new y_new)
      \<longrightarrow> platform_collision cfg y x_new (y_new, vy) = (y_new, vy))"
  by (simp add: platform_collision_def platform_scan_skip platform_scan_hit platform_scan_none)

lemma proposed_platform:
  assumes "vy1 = snd (apply_action cfg e (x, y, vx0, vy0) (movement, jump)) + gravity cfg * dt cfg"
    and "x_new = x + control_vx cfg movement * dt cfg"
    and "ground_collision (y + vy1 * dt cfg, vy1) = (y_new, vy)"
  shows "proposed cfg e (x, y, vx0, vy0) (movement, jump) =
           (x_new, fst (platform_collision cfg y x_new (y_new, vy)), control_vx cfg movement,
            snd (platform_collision cfg y x_new (y_new, vy)))"
  using assms by (simp add: proposed_def propose_def Let_def split_beta)

lemma wall_collision_clear:
  "\<not> inside_wall_horizontal cfg x_new \<Longrightarrow> wall_collision cfg x y (x_new, y_new, vx, vy) = (x_new, y_new, vx, vy)"
  by (simp add: wall_collision_def Let_def)

text \<open>
  C7.  In \<^verbatim>\<open>step\<close>, with \<open>vy1\<close> the vertical velocity after the jump block and
  gravity, \<open>x_new\<close> the integrated \<open>x\<close>, and \<open>(y_new, vy)\<close> what the ground clamp
  leaves of \<open>(y + vy1 * dt, vy1)\<close>: the platforms are scanned only when
  \<open>vy < 0\<close>, which means that \<open>vy1 < 0\<close> and the ground did not clamp; the
  first platform in list order whose top is at or below the previous \<open>y\<close>, at
  or above \<open>y_new\<close>, and under the new horizontal extent receives the snap
  (the position handed to the wall test has that platform's top as \<open>y\<close> and 0
  as \<open>vy\<close>, and that is what \<^verbatim>\<open>step\<close> stores when the player is clear of the
  wall), whatever platforms follow it in the list; when no platform qualifies,
  or when \<open>vy < 0\<close> fails, the platforms change nothing.
\<close>

theorem platform_first_match_wins:
  assumes "state e = Some (x, y, vx0, vy0)"
    and "vy1 = snd (apply_action cfg e (x, y, vx0, vy0) (movement, jump)) + gravity cfg * dt cfg"
    and "x_new = x + control_vx cfg movement * dt cfg"
    and "ground_collision (y + vy1 * dt cfg, vy1) = (y_new, vy)"
  shows "(\<exists>e' r. step cfg e (movement, jump) = Inr (e', r)
            \<and> state e' = Some (wall_collision cfg x y (proposed cfg e (x, y, vx0, vy0) (movement, jump))))
       \<and> (vy < 0 \<longrightarrow> vy1 < 0 \<and> vy = vy1 \<and> y_new = y + vy1 * dt cfg)
       \<and> (\<not> vy < 0 \<longrightarrow>
            proposed cfg e (x, y, vx0, vy0) (movement, jump) = (x_new, y_new, control_vx cfg movement, vy))
       \<and> (vy < 0 \<and> platforms cfg = ps @ p # rest
            \<and> (\<forall>q \<in> set ps. \<not> lands_on cfg q y x_new y_new) \<and> lands_on cfg p y x_new y_new
          \<longrightarrow> proposed cfg e (x, y, vx0, vy0) (movement, jump)
                = (x_new, platform_top cfg p, control_vx cfg movement, 0)
              \<and> (\<not> inside_wall_horizontal cfg x_new \<longrightarrow>
                   (\<exists>e' r. step cfg e (movement, jump) = Inr (e', r)
                      \<and> state e' = Some (x_new, platform_top cfg p, control_vx cfg movement, 0))))
       \<and> (vy < 0 \<and> (\<forall>q \<in> set (platforms cfg). \<not> lands_on cfg q y x_new y_new)
          \<longrightarrow> proposed cfg e (x, y, vx0, vy0) (movement, jump) = (x_new, y_new, control_vx cfg movement, vy))"
proof -
  let ?pr = "proposed cfg e (x, y, vx0, vy0) (movement, jump)"
  let ?vx = "control_vx cfg movement"
  obtain e' r where er: "step_core cfg e (x, y, vx0, vy0) (movement, jump) = (e', r)"
    by (cases "step_core cfg e (x, y, vx0, vy0) (movement, jump)")
  have s: "step cfg e (movement, jump) = Inr (e', r)" using assms(1) er by (simp add: step_def)
  have se: "state e' = Some (wall_collision cfg x y ?pr)"
    using state_step_core [of cfg e x y vx0 vy0 movement jump] er by simp
  have c1: "\<exists>e' r. step cfg e (movement, jump) = Inr (e', r) \<and> state e' = Some (wall_collision cfg x y ?pr)"
    using s se by blast
  have c2: "vy < 0 \<longrightarrow> vy1 < 0 \<and> vy = vy1 \<and> y_new = y + vy1 * dt cfg"
    using assms(4) by (auto simp: ground_collision_def split: if_splits)
  note pp = proposed_platform [OF assms(2,3,4)]
  note pc = platform_collision_first_match [of vy cfg y x_new y_new ps p rest]
  have c3: "\<not> vy < 0 \<longrightarrow> ?pr = (x_new, y_new, ?vx, vy)"
    using pp pc by simp
  have c5: "vy < 0 \<and> (\<forall>q \<in> set (platforms cfg). \<not> lands_on cfg q y x_new y_new)
          \<longrightarrow> ?pr = (x_new, y_new, ?vx, vy)"
    using pp pc by simp
  have c4: "vy < 0 \<and> platforms cfg = ps @ p # rest
            \<and> (\<forall>q \<in> set ps. \<not> lands_on cfg q y x_new y_new) \<and> lands_on cfg p y x_new y_new
          \<longrightarrow> ?pr = (x_new, platform_top cfg p, ?vx, 0)
              \<and> (\<not> inside_wall_horizontal cfg x_new \<longrightarrow>
                   (\<exists>e' r. step cfg e (movement, jump) = Inr (e', r)
                      \<and> state e' = Some (x_new, platform_top cfg p, ?vx, 0)))"
  proof (intro impI)
    assume h: "vy < 0 \<and> platforms cfg = ps @ p # rest
            \<and> (\<forall>q \<in> set ps. \<not> lands_on cfg q y x_new y_new) \<and> lands_on cfg p y x_new y_new"
    have "platform_collision cfg y x_new (y_new, vy) = (platform_top cfg p, 0)"
      using pc h by blast
    then have a: "?pr = (x_new, platform_top cfg p, ?vx, 0)" using pp by simp
    have "\<not> inside_wall_horizontal cfg x_new \<longrightarrow>
            (\<exists>e' r. step cfg e (movement, jump) = Inr (e', r)
               \<and> state e' = Some (x_new, platform_top cfg p, ?vx, 0))"
      using s se a wall_collision_clear [of cfg x_new x y "platform_top cfg p" ?vx 0] by auto
    then show "?pr = (x_new, platform_top cfg p, ?vx, 0)
              \<and> (\<not> inside_wall_horizontal cfg x_new \<longrightarrow>
                   (\<exists>e' r. step cfg e (movement, jump) = Inr (e', r)
                      \<and> state e' = Some (x_new, platform_top cfg p, ?vx, 0)))"
      using a by blast
  qed
  show ?thesis using c1 c2 c3 c4 c5 by blast
qed

theorem platform_first_match_wins_witness:
  "state (init_env\<lparr>state := Some (7, 3.3, 0, - 84.4)\<rparr>) = Some (7, 3.3, 0, - 84.4)
   \<and> (- 85::real) = snd (apply_action v0 (init_env\<lparr>state := Some (7, 3.3, 0, - 84.4)\<rparr>)
                            (7, 3.3, 0, - 84.4) (0, 0)) + gravity v0 * dt v0
   \<and> (7::real) = 7 + control_vx v0 0 * dt v0
   \<and> ground_collision (3.3 + - 85 * dt v0, - 85) = (1.6, - 85)
   \<and> (- 85::real) < 0
   \<and> platforms v0 = [] @ (4.0, 8.5, 1.5) # [(6.0, 9.0, 3.0), (5.0, 6.5, 4.5), (7.0, 10.0, 6.0)]
   \<and> lands_on v0 (4.0, 8.5, 1.5) 3.3 7 1.6 \<and> lands_on v0 (6.0, 9.0, 3.0) 3.3 7 1.6
   \<and> platform_top v0 (4.0, 8.5, 1.5) = 1.7 \<and> platform_top v0 (6.0, 9.0, 3.0) = 3.2
   \<and> \<not> inside_wall_horizontal v0 7
   \<and> proposed v0 (init_env\<lparr>state := Some (7, 3.3, 0, - 84.4)\<rparr>) (7, 3.3, 0, - 84.4) (0, 0)
       = (7, 1.7, 0, 0)
   \<and> (\<exists>e' r. step v0 (init_env\<lparr>state := Some (7, 3.3, 0, - 84.4)\<rparr>) (0, 0) = Inr (e', r)
          \<and> state e' = Some (7, 1.7, 0, 0))"
proof -
  let ?e = "init_env\<lparr>state := Some (7, 3.3, 0, - 84.4)\<rparr>"
  have h1: "state ?e = Some (7, 3.3, 0, - 84.4)" by simp
  have h2: "(- 85::real) = snd (apply_action v0 ?e (7, 3.3, 0, - 84.4) (0, 0)) + gravity v0 * dt v0"
    by (simp add: apply_action_def jump_triggers_def jump_pressed_def Let_def v0_def init_env_def)
  have h3: "(7::real) = 7 + control_vx v0 0 * dt v0" by (simp add: control_vx_def)
  have h4: "ground_collision (3.3 + - 85 * dt v0, - 85) = (1.6, - 85)"
    by (simp add: ground_collision_def v0_def)
  have p: "platforms v0 = [] @ (4.0, 8.5, 1.5) # [(6.0, 9.0, 3.0), (5.0, 6.5, 4.5), (7.0, 10.0, 6.0)]"
    by (simp add: v0_def)
  have l1: "lands_on v0 (4.0, 8.5, 1.5) 3.3 7 1.6" by (simp add: lands_on_def v0_def)
  have l2: "lands_on v0 (6.0, 9.0, 3.0) 3.3 7 1.6" by (simp add: lands_on_def v0_def)
  have t1: "platform_top v0 (4.0, 8.5, 1.5) = 1.7" by (simp add: platform_top_def v0_def)
  have t2: "platform_top v0 (6.0, 9.0, 3.0) = 3.2" by (simp add: platform_top_def v0_def)
  have w: "\<not> inside_wall_horizontal v0 7"
    by (simp add: inside_wall_horizontal_def wall_left_def v0_def)
  have n: "(- 85::real) < 0" by simp
  have c0: "control_vx v0 0 = 0" by (simp add: control_vx_def)
  note t = platform_first_match_wins [OF h1 h2 h3 h4, where ps = "[]" and p = "(4.0, 8.5, 1.5)"
              and rest = "[(6.0, 9.0, 3.0), (5.0, 6.5, 4.5), (7.0, 10.0, 6.0)]"]
  have c: "proposed v0 ?e (7, 3.3, 0, - 84.4) (0, 0) = (7, 1.7, 0, 0)
           \<and> (\<exists>e' r. step v0 ?e (0, 0) = Inr (e', r) \<and> state e' = Some (7, 1.7, 0, 0))"
    using t n p l1 w unfolding t1 c0 by simp
  show ?thesis
    by (intro conjI, rule h1, rule h2, rule h3, rule h4, rule n, rule p, rule l1, rule l2, rule t1,
        rule t2, rule w, rule conjunct1 [OF c], rule conjunct2 [OF c])
qed

subsection \<open>The ground invariant\<close>

lemma surfaces_nonneg_presets: "surfaces_nonneg v0" "surfaces_nonneg v1"
  by (simp_all add: surfaces_nonneg_def platform_top_def wall_hitbox_def v0_def v1_def)

lemma platform_scan_nonneg:
  "0 \<le> y_new \<Longrightarrow> list_all (\<lambda>p. 0 \<le> platform_top cfg p) ps \<Longrightarrow>
   0 \<le> fst (platform_scan cfg ps y x_new (y_new, vy))"
proof (induction ps)
  case Nil
  then show ?case by simp
next
  case (Cons p ps)
  obtain px1 px2 py where p: "p = (px1, px2, py)" by (cases p)
  show ?case using Cons unfolding p by (simp add: platform_top_def Let_def)
qed

lemma propose_nonneg:
  assumes "list_all (\<lambda>p. 0 \<le> platform_top cfg p) (platforms cfg)"
    and "propose cfg x y vx vy = (x_new, y_new, vx', vy')"
  shows "0 \<le> y_new"
proof -
  define g where "g = ground_collision (y + (vy + gravity cfg * dt cfg) * dt cfg, vy + gravity cfg * dt cfg)"
  have g0: "0 \<le> fst g" by (simp add: g_def ground_collision_def)
  have "y_new = fst (platform_collision cfg y (x + vx * dt cfg) g)"
    using assms(2) by (simp add: propose_def Let_def g_def split: prod.splits)
  also have "0 \<le> fst (platform_collision cfg y (x + vx * dt cfg) g)"
    using g0 assms(1) platform_scan_nonneg [of "fst g" cfg "platforms cfg" y "x + vx * dt cfg" "snd g"]
    by (cases g) (simp add: platform_collision_def)
  finally show ?thesis by simp
qed

lemma wall_collision_nonneg:
  assumes "surfaces_nonneg cfg" and "0 \<le> y_new"
    and "wall_collision cfg x y (x_new, y_new, vx, vy) = (x', y', vx', vy')"
  shows "0 \<le> y'"
  using assms by (auto simp: wall_collision_def surfaces_nonneg_def Let_def split: if_splits)

lemma step_y_nonneg:
  assumes ok: "surfaces_nonneg cfg" and s: "step cfg e a = Inr (e', r)"
  shows "\<exists>x y vx vy. state e' = Some (x, y, vx, vy) \<and> 0 \<le> y"
proof -
  obtain x y vx0 vy0 where st: "state e = Some (x, y, vx0, vy0)"
    using s by (cases "state e") (auto simp: step_def)
  obtain movement jump where a: "a = (movement, jump)" by (cases a)
  obtain x_new y_new vx vy where pr: "proposed cfg e (x, y, vx0, vy0) (movement, jump) = (x_new, y_new, vx, vy)"
    by (cases "proposed cfg e (x, y, vx0, vy0) (movement, jump)")
  obtain x' y' vx' vy' where w: "wall_collision cfg x y (x_new, y_new, vx, vy) = (x', y', vx', vy')"
    by (cases "wall_collision cfg x y (x_new, y_new, vx, vy)")
  have "0 \<le> y_new"
    using pr ok propose_nonneg by (auto simp: proposed_def surfaces_nonneg_def)
  then have "0 \<le> y'" using wall_collision_nonneg [OF ok _ w] by simp
  moreover have "state e' = Some (x', y', vx', vy')"
    using s st a state_step_core [of cfg e x y vx0 vy0 movement jump] pr w
    by (auto simp: step_def)
  ultimately show ?thesis by blast
qed

text \<open>
  C2.  In both presets, whatever the instance and the action, the \<open>y\<close> stored
  in the state when \<^verbatim>\<open>step\<close> returns is at least 0.  This holds from every
  state, hence from every reachable one.
\<close>

theorem y_never_below_ground:
  assumes "cfg = v0 \<or> cfg = v1" and "step cfg e a = Inr (e', r)"
  shows "\<exists>x y vx vy. state e' = Some (x, y, vx, vy) \<and> 0 \<le> y"
  using assms step_y_nonneg surfaces_nonneg_presets by blast

theorem y_never_below_ground_witness:
  "(v0 = v0 \<or> v0 = v1)
   \<and> step v0 (init_env\<lparr>state := Some (1, 0.005, 0, - 3)\<rparr>) (0, 0)
       = Inr (init_env\<lparr>state := Some (1, 0, 0, 0), steps := 1\<rparr>,
              \<lparr>obs = [1, 0, 0, 0, 0, 19, 9, 1], reward = - 0.06, terminated = False, truncated = False\<rparr>)
   \<and> (\<exists>x y vx vy. state (init_env\<lparr>state := Some (1, 0, 0, 0), steps := 1\<rparr>) = Some (x, y, vx, vy) \<and> 0 \<le> y)"
proof -
  have s: "step v0 (init_env\<lparr>state := Some (1, 0.005, 0, - 3)\<rparr>) (0, 0)
       = Inr (init_env\<lparr>state := Some (1, 0, 0, 0), steps := 1\<rparr>,
              \<lparr>obs = [1, 0, 0, 0, 0, 19, 9, 1], reward = - 0.06, terminated = False, truncated = False\<rparr>)"
    by (simp add: step_defs v0_def init_env_def)
  show ?thesis using s y_never_below_ground [OF _ s] by simp
qed

subsection \<open>The seed\<close>

lemma apply_action_seed:
  "apply_action cfg (e\<lparr>np_random_seed := s\<rparr>) st a =
     (case apply_action cfg e st a of (e', vy) \<Rightarrow> (e'\<lparr>np_random_seed := s\<rparr>, vy))"
  by (cases st; cases a) (simp add: apply_action_def jump_triggers_def jump_pressed_def Let_def)

lemma finish_step_seed:
  "finish_step cfg (e\<lparr>np_random_seed := s\<rparr>) x y r0 p =
     (case finish_step cfg e x y r0 p of (e', r) \<Rightarrow> (e'\<lparr>np_random_seed := s\<rparr>, r))"
  by (cases p; cases "version cfg") (simp_all add: finish_step_def Let_def)

lemma step_core_seed:
  "step_core cfg (e\<lparr>np_random_seed := s\<rparr>) st a =
     (case step_core cfg e st a of (e', r) \<Rightarrow> (e'\<lparr>np_random_seed := s\<rparr>, r))"
  by (cases st; cases a; cases "apply_action cfg e st a")
     (simp add: step_core_def apply_action_seed finish_step_seed Let_def)

lemma step_seed:
  "step cfg (e\<lparr>np_random_seed := s\<rparr>) a =
     (case step cfg e a of Inl err \<Rightarrow> Inl err | Inr (e', r) \<Rightarrow> Inr (e'\<lparr>np_random_seed := s\<rparr>, r))"
  by (simp add: step_def step_core_seed split: option.splits prod.splits)

lemma run_seed:
  "run cfg (e\<lparr>np_random_seed := s\<rparr>) acts =
     (case run cfg e acts of Inl err \<Rightarrow> Inl err | Inr (e', rs) \<Rightarrow> Inr (e'\<lparr>np_random_seed := s\<rparr>, rs))"
proof (induction acts arbitrary: e)
  case Nil
  then show ?case by simp
next
  case (Cons a acts)
  show ?case
    by (simp add: step_seed Cons.IH split: sum.splits prod.splits)
qed

lemma trajectory_seed: "trajectory cfg (e\<lparr>np_random_seed := s\<rparr>) acts = trajectory cfg e acts"
  by (simp add: trajectory_def run_seed split: sum.splits prod.splits)

lemma reset_seed:
  "fst (reset_result cfg seed e) =
     (fst (reset_result cfg None e))\<lparr>np_random_seed := (case seed of None \<Rightarrow> np_random_seed e | Some s \<Rightarrow> Some s)\<rparr>"
  by (simp add: reset_result_def reset_body_def Let_def split: option.splits version.splits)

lemma reset_obs: "snd (reset_result cfg seed e) = get_obs cfg 0 (start_x cfg, start_y cfg, 0, 0)"
  by (simp add: reset_result_def reset_body_def Let_def split: option.splits version.splits)

lemma reset_result_seed:
  "snd (reset_result cfg seed1 e) = snd (reset_result cfg seed2 e)
   \<and> trajectory cfg (fst (reset_result cfg seed1 e)) acts = trajectory cfg (fst (reset_result cfg seed2 e)) acts
   \<and> state (fst (reset_result cfg seed1 e)) = Some (start_x cfg, start_y cfg, 0, 0)
   \<and> jump_cooldown (fst (reset_result cfg seed1 e)) = 0
   \<and> is_jumping (fst (reset_result cfg seed1 e)) = False
   \<and> prev_jump (fst (reset_result cfg seed1 e)) = 0"
proof -
  have "trajectory cfg (fst (reset_result cfg seed1 e)) acts = trajectory cfg (fst (reset_result cfg None e)) acts"
    by (subst reset_seed) (rule trajectory_seed)
  moreover have "trajectory cfg (fst (reset_result cfg seed2 e)) acts = trajectory cfg (fst (reset_result cfg None e)) acts"
    by (subst reset_seed) (rule trajectory_seed)
  moreover have "state (fst (reset_result cfg seed1 e)) = Some (start_x cfg, start_y cfg, 0, 0)
      \<and> jump_cooldown (fst (reset_result cfg seed1 e)) = 0
      \<and> is_jumping (fst (reset_result cfg seed1 e)) = False
      \<and> prev_jump (fst (reset_result cfg seed1 e)) = 0"
    by (simp add: reset_result_def reset_body_def Let_def split: option.splits version.splits)
  ultimately show ?thesis by (simp add: reset_obs)
qed

lemma reset_fresh: "reset v0 None init_env = Inr (grounded_env 1 0 0 0, [1, 0, 0, 0, 0, 19, 9, 1])"
  by (simp add: reset_def base_reset_def reset_body_def Let_def v0_def init_env_def grounded_env_def
        get_obs_def on_ground_def)

lemma reset_result_fresh: "fst (reset_result v0 None init_env) = grounded_env 1 0 0 0"
  by (simp add: reset_result_def reset_body_def Let_def v0_def init_env_def grounded_env_def)

text \<open>
  C10 fails on the code: the seed \<open>- 1\<close> makes \<^verbatim>\<open>reset\<close> raise in the base class,
  where the absent seed returns the initial observation.
\<close>

theorem seed_has_no_effect_counterexample:
  "reset v0 (Some (- 1)) init_env = Inl GymError
   \<and> reset v0 None init_env = Inr (grounded_env 1 0 0 0, [1, 0, 0, 0, 0, 19, 9, 1])"
  using reset_fresh by (simp add: reset_def base_reset_def)

text \<open>
  C10 (as the code has it).  Among the seeds that \<^verbatim>\<open>reset\<close> accepts (absent, or
  an integer that is not negative) the seed changes nothing a caller can see:
  for any two of them the initial observations are equal and every action
  sequence yields the same returned values; the state after \<^verbatim>\<open>reset\<close> is
  \<open>(start_x, start_y, 0, 0)\<close> with cooldown 0, \<open>is_jumping\<close> false and \<open>prev_jump\<close>
  0.  A negative seed makes \<^verbatim>\<open>reset\<close> raise before anything is assigned.
\<close>

theorem seed_has_no_effect:
  "(seed_accepted seed1 \<and> seed_accepted seed2 \<longrightarrow>
      (\<exists>e1 e2 ob. reset cfg seed1 e = Inr (e1, ob) \<and> reset cfg seed2 e = Inr (e2, ob)
         \<and> trajectory cfg e1 acts = trajectory cfg e2 acts
         \<and> state e1 = Some (start_x cfg, start_y cfg, 0, 0)
         \<and> jump_cooldown e1 = 0 \<and> is_jumping e1 = False \<and> prev_jump e1 = 0))
   \<and> (\<not> seed_accepted seed1 \<longrightarrow> reset cfg seed1 e = Inl GymError)"
proof -
  have "\<exists>e1 e2 ob. reset cfg seed1 e = Inr (e1, ob) \<and> reset cfg seed2 e = Inr (e2, ob)
         \<and> trajectory cfg e1 acts = trajectory cfg e2 acts
         \<and> state e1 = Some (start_x cfg, start_y cfg, 0, 0)
         \<and> jump_cooldown e1 = 0 \<and> is_jumping e1 = False \<and> prev_jump e1 = 0"
    if a: "seed_accepted seed1" "seed_accepted seed2"
  proof -
    let ?e1 = "fst (reset_result cfg seed1 e)" and ?e2 = "fst (reset_result cfg seed2 e)"
    let ?ob = "snd (reset_result cfg seed1 e)"
    have r1: "reset cfg seed1 e = Inr (?e1, ?ob)" using reset_accepted [OF a(1), of cfg e] by simp
    have "snd (reset_result cfg seed2 e) = ?ob"
      using reset_result_seed [of cfg seed1 e seed2 acts] by simp
    then have r2: "reset cfg seed2 e = Inr (?e2, ?ob)"
      using reset_accepted [OF a(2), of cfg e] by (metis prod.collapse)
    show ?thesis using r1 r2 reset_result_seed [of cfg seed1 e seed2 acts] by blast
  qed
  then show ?thesis using reset_rejected by blast
qed

theorem seed_has_no_effect_witness:
  "seed_accepted None \<and> seed_accepted (Some 7)
   \<and> (\<exists>e1 e2 ob. reset v0 None init_env = Inr (e1, ob) \<and> reset v0 (Some 7) init_env = Inr (e2, ob)
         \<and> trajectory v0 e1 [(2, 1)] = trajectory v0 e2 [(2, 1)]
         \<and> state e1 = Some (start_x v0, start_y v0, 0, 0)
         \<and> jump_cooldown e1 = 0 \<and> is_jumping e1 = False \<and> prev_jump e1 = 0)
   \<and> \<not> seed_accepted (Some (- 2))
   \<and> reset v0 (Some (- 2)) init_env = Inl GymError"
proof -
  have a: "seed_accepted None" "seed_accepted (Some 7)" "\<not> seed_accepted (Some (- 2))"
    by (simp_all add: seed_accepted_def)
  show ?thesis
    using seed_has_no_effect [of None "Some 7" v0 init_env "[(2, 1)]"]
      seed_has_no_effect [of "Some (- 2)" None v0 init_env "[]"] a
    by blast
qed

subsection \<open>Independence of the instance's past\<close>

lemma same_visible_reset: "same_visible cfg (fst (reset_result cfg seed e1)) (fst (reset_result cfg seed e2))"
  by (simp add: same_visible_def reset_result_def reset_body_def grounded_env_def Let_def split: option.splits version.splits)

lemma same_visible_apply_action:
  assumes "same_visible cfg e1 e2"
  shows "snd (apply_action cfg e1 st a) = snd (apply_action cfg e2 st a)
         \<and> same_visible cfg (fst (apply_action cfg e1 st a)) (fst (apply_action cfg e2 st a))"
  using assms
  by (cases st; cases a)
     (simp add: same_visible_def apply_action_def jump_triggers_def jump_pressed_def Let_def)

lemma same_visible_finish_step:
  assumes "same_visible cfg e1 e2"
  shows "snd (finish_step cfg e1 x y r0 p) = snd (finish_step cfg e2 x y r0 p)
         \<and> same_visible cfg (fst (finish_step cfg e1 x y r0 p)) (fst (finish_step cfg e2 x y r0 p))"
  using assms
  by (cases p; cases "version cfg")
     (simp_all add: same_visible_def finish_step_def landing_now_def Let_def)

lemma same_visible_step_core:
  assumes "same_visible cfg e1 e2"
  shows "snd (step_core cfg e1 st a) = snd (step_core cfg e2 st a)
         \<and> same_visible cfg (fst (step_core cfg e1 st a)) (fst (step_core cfg e2 st a))"
proof -
  obtain x y vx0 vy0 where st: "st = (x, y, vx0, vy0)" by (cases st)
  obtain movement jump where a: "a = (movement, jump)" by (cases a)
  obtain e1' vy1 where a1: "apply_action cfg e1 st a = (e1', vy1)" by (cases "apply_action cfg e1 st a")
  obtain e2' vy2 where a2: "apply_action cfg e2 st a = (e2', vy2)" by (cases "apply_action cfg e2 st a")
  have vy: "vy1 = vy2" and sv: "same_visible cfg e1' e2'"
    using same_visible_apply_action [OF assms, of st a] a1 a2 by simp_all
  show ?thesis
    using same_visible_finish_step [OF sv] a1 a2 vy
    by (simp add: step_core_def st a Let_def)
qed

lemma same_visible_step:
  assumes "same_visible cfg e1 e2"
  shows "(case (step cfg e1 a, step cfg e2 a) of
            (Inl err1, Inl err2) \<Rightarrow> err1 = err2
          | (Inr (e1', r1), Inr (e2', r2)) \<Rightarrow> r1 = r2 \<and> same_visible cfg e1' e2'
          | _ \<Rightarrow> False)"
proof (cases "state e1")
  case None
  then show ?thesis using assms by (simp add: step_def same_visible_def)
next
  case (Some st)
  then have "state e2 = Some st" using assms by (simp add: same_visible_def)
  then show ?thesis
    using Some same_visible_step_core [OF assms, of st a]
    by (cases "step_core cfg e1 st a"; cases "step_core cfg e2 st a") (simp add: step_def)
qed

lemma same_visible_trajectory:
  "same_visible cfg e1 e2 \<Longrightarrow> trajectory cfg e1 acts = trajectory cfg e2 acts"
proof (induction acts arbitrary: e1 e2)
  case Nil
  then show ?case by (simp add: trajectory_def)
next
  case (Cons a acts)
  show ?case
  proof (cases "step cfg e1 a")
    case (Inl err)
    then show ?thesis using same_visible_step [OF Cons.prems, of a]
      by (auto simp: trajectory_def split: sum.splits prod.splits)
  next
    case (Inr p)
    obtain e1' r where p: "p = (e1', r)" by (cases p)
    obtain e2' where s2: "step cfg e2 a = Inr (e2', r)" and sv: "same_visible cfg e1' e2'"
      using same_visible_step [OF Cons.prems, of a] Inr p
      by (auto split: sum.splits prod.splits)
    have "trajectory cfg e1' acts = trajectory cfg e2' acts" using Cons.IH [OF sv] .
    then show ?thesis using Inr p s2
      by (auto simp: trajectory_def split: sum.splits prod.splits)
  qed
qed

lemma reset_result_reproducible:
  "snd (reset_result cfg seed e1) = snd (reset_result cfg seed e2)
   \<and> trajectory cfg (fst (reset_result cfg seed e1)) acts = trajectory cfg (fst (reset_result cfg seed e2)) acts"
  using same_visible_trajectory [OF same_visible_reset] by (simp add: reset_obs)

text \<open>
  C6.  Two runs with the same seed and the same actions return the same
  observations, rewards and flags at every step, whatever the two instances
  went through before their \<^verbatim>\<open>reset\<close> (fresh from \<^verbatim>\<open>__init__\<close> or left over from
  earlier episodes): \<^verbatim>\<open>reset\<close> re-initialises all that \<^verbatim>\<open>step\<close> reads, and
  \<^verbatim>\<open>y_before_jump\<close>, which it does not re-initialise, is written before it is
  read.  With a seed that the base class refuses, both runs end alike, in the
  same exception.
\<close>

theorem runs_are_reproducible:
  "(seed_accepted seed \<longrightarrow>
      (\<exists>e1' e2' ob. reset cfg seed e1 = Inr (e1', ob) \<and> reset cfg seed e2 = Inr (e2', ob)
         \<and> trajectory cfg e1' acts = trajectory cfg e2' acts))
   \<and> (\<not> seed_accepted seed \<longrightarrow>
        reset cfg seed e1 = Inl GymError \<and> reset cfg seed e2 = Inl GymError)"
proof -
  have "\<exists>e1' e2' ob. reset cfg seed e1 = Inr (e1', ob) \<and> reset cfg seed e2 = Inr (e2', ob)
         \<and> trajectory cfg e1' acts = trajectory cfg e2' acts"
    if a: "seed_accepted seed"
  proof -
    let ?e1 = "fst (reset_result cfg seed e1)" and ?e2 = "fst (reset_result cfg seed e2)"
    let ?ob = "snd (reset_result cfg seed e1)"
    have r1: "reset cfg seed e1 = Inr (?e1, ?ob)" using reset_accepted [OF a, of cfg e1] by simp
    have "snd (reset_result cfg seed e2) = ?ob"
      using reset_result_reproducible [of cfg seed e1 e2 acts] by simp
    then have r2: "reset cfg seed e2 = Inr (?e2, ?ob)"
      using reset_accepted [OF a, of cfg e2] by (metis prod.collapse)
    show ?thesis using r1 r2 reset_result_reproducible [of cfg seed e1 e2 acts] by blast
  qed
  then show ?thesis using reset_rejected by blast
qed

theorem runs_are_reproducible_witness:
  "seed_accepted (Some 3)
   \<and> (\<exists>e1' e2' ob.
         reset v0 (Some 3) init_env = Inr (e1', ob)
         \<and> reset v0 (Some 3) ((plain_env (5, 2, 1, - 3) 77 12)\<lparr>is_jumping := True, y_before_jump := 4\<rparr>)
             = Inr (e2', ob)
         \<and> trajectory v0 e1' [(2, 1), (0, 0)] = trajectory v0 e2' [(2, 1), (0, 0)])
   \<and> \<not> seed_accepted (Some (- 5))
   \<and> reset v0 (Some (- 5)) init_env = Inl GymError
   \<and> reset v0 (Some (- 5)) ((plain_env (5, 2, 1, - 3) 77 12)\<lparr>is_jumping := True, y_before_jump := 4\<rparr>)
       = Inl GymError"
proof -
  have a: "seed_accepted (Some 3)" "\<not> seed_accepted (Some (- 5))"
    by (simp_all add: seed_accepted_def)
  show ?thesis
    using runs_are_reproducible [of "Some 3" v0 init_env
            "(plain_env (5, 2, 1, - 3) 77 12)\<lparr>is_jumping := True, y_before_jump := 4\<rparr>" "[(2, 1), (0, 0)]"]
      runs_are_reproducible [of "Some (- 5)" v0 init_env
            "(plain_env (5, 2, 1, - 3) 77 12)\<lparr>is_jumping := True, y_before_jump := 4\<rparr>" "[]"] a
    by blast
qed

subsection \<open>The jump trigger and its cooldown\<close>

lemma apply_action_fields:
  "apply_action cfg e (x, y, vx, vy) (movement, jump) =
     (e\<lparr>jump_cooldown := (if jump_triggers cfg e (x, y, vx, vy) jump then jump_cooldown_max cfg
                            else tick_cooldown (jump_cooldown e)),
        steps := steps e + 1,
        y_before_jump := (if jump_triggers cfg e (x, y, vx, vy) jump then y else y_before_jump e),
        is_jumping := (jump_triggers cfg e (x, y, vx, vy) jump \<or> is_jumping e),
        prev_jump := jump\<rparr>,
      if jump_triggers cfg e (x, y, vx, vy) jump then jump_speed cfg else vy)"
  by (simp add: apply_action_def Let_def)

lemma finish_step_keeps:
  "jump_cooldown (fst (finish_step cfg e x y r0 p)) = jump_cooldown e"
  "prev_jump (fst (finish_step cfg e x y r0 p)) = prev_jump e"
  "steps (fst (finish_step cfg e x y r0 p)) = steps e"
  "state (fst (finish_step cfg e x y r0 p)) = Some p"
  by (cases p; cases "version cfg"; simp add: finish_step_def Let_def)+

lemma step_core_bookkeeping:
  "jump_cooldown (fst (step_core cfg e st (movement, jump))) =
     (if jump_triggers cfg e st jump then jump_cooldown_max cfg else tick_cooldown (jump_cooldown e))"
  "prev_jump (fst (step_core cfg e st (movement, jump))) = jump"
  "steps (fst (step_core cfg e st (movement, jump))) = steps e + 1"
  "state (fst (step_core cfg e st (movement, jump))) \<noteq> None"
  by (cases st; simp add: step_core_def apply_action_fields finish_step_keeps Let_def)+




















subsection \<open>No validation in \<^verbatim>\<open>step\<close>\<close>

lemma control_vx_other: "movement \<noteq> 1 \<Longrightarrow> movement \<noteq> 2 \<Longrightarrow> control_vx cfg movement = control_vx cfg 0"
  by (simp add: control_vx_def)

lemma apply_action_movement: "apply_action cfg e st (movement, jump) = apply_action cfg e st (0, jump)"
  by (cases st) (simp add: apply_action_def)

lemma step_core_movement:
  assumes "movement \<noteq> 1" "movement \<noteq> 2"
  shows "step_core cfg e st (movement, jump) = step_core cfg e st (0, jump)"
  using control_vx_other [OF assms, of cfg] apply_action_movement [of cfg e st movement jump]
  by (cases st) (simp add: step_core_def control_vx_def)

lemma finish_step_prev_jump:
  "finish_step cfg (e\<lparr>prev_jump := j\<rparr>) x y r0 p =
     (case finish_step cfg e x y r0 p of (e', r) \<Rightarrow> (e'\<lparr>prev_jump := j\<rparr>, r))"
  by (cases p; cases "version cfg") (simp_all add: finish_step_def Let_def)

lemma apply_action_jump:
  assumes "jump \<noteq> 1"
  shows "apply_action cfg e st (movement, jump) =
           (case apply_action cfg e st (movement, 0) of (e', vy) \<Rightarrow> (e'\<lparr>prev_jump := jump\<rparr>, vy))"
  using assms by (cases st) (simp add: apply_action_def jump_triggers_def jump_pressed_def Let_def)

lemma step_core_jump:
  assumes "jump \<noteq> 1"
  shows "step_core cfg e st (movement, jump) =
           (case step_core cfg e st (movement, 0) of (e', r) \<Rightarrow> (e'\<lparr>prev_jump := jump\<rparr>, r))"
proof -
  obtain x y vx0 vy0 where st: "st = (x, y, vx0, vy0)" by (cases st)
  obtain e1 vy where a0: "apply_action cfg e st (movement, 0) = (e1, vy)"
    by (cases "apply_action cfg e st (movement, 0)")
  have aj: "apply_action cfg e st (movement, jump) = (e1\<lparr>prev_jump := jump\<rparr>, vy)"
    using apply_action_jump [OF assms, of cfg e st movement] a0 by simp
  have h: "jump_held_penalty cfg jump = jump_held_penalty cfg 0"
    using assms by (simp add: jump_held_penalty_def)
  show ?thesis
    unfolding step_core_def st
    using a0 aj h by (simp add: finish_step_prev_jump Let_def st)
qed

text \<open>
  C5 (as the code has it).  \<^verbatim>\<open>step\<close> checks neither the episode status nor the
  action: once the state is set it returns normally for every pair of integers
  and whatever the step count; a movement other than 1 or 2 acts as movement
  0; a jump value other than 1 acts as jump 0, except that it is what
  \<^verbatim>\<open>prev_jump\<close> remembers.
\<close>

theorem step_accepts_everything:
  assumes "state e = Some st"
  shows "(\<exists>e' r. step cfg e (movement, jump) = Inr (e', r))
         \<and> (movement \<noteq> 1 \<and> movement \<noteq> 2 \<longrightarrow> step cfg e (movement, jump) = step cfg e (0, jump))
         \<and> (jump \<noteq> 1 \<longrightarrow>
              step cfg e (movement, jump) =
                (case step cfg e (movement, 0) of
                   Inl err \<Rightarrow> Inl err
                 | Inr (e', r) \<Rightarrow> Inr (e'\<lparr>prev_jump := jump\<rparr>, r)))"
proof -
  have "\<exists>e' r. step cfg e (movement, jump) = Inr (e', r)"
    using assms by (cases "step_core cfg e st (movement, jump)") (simp add: step_def)
  moreover have "movement \<noteq> 1 \<and> movement \<noteq> 2 \<longrightarrow> step cfg e (movement, jump) = step cfg e (0, jump)"
  proof
    assume m: "movement \<noteq> 1 \<and> movement \<noteq> 2"
    have "step_core cfg e st (movement, jump) = step_core cfg e st (0, jump)"
      using m step_core_movement [of movement cfg e st jump] by blast
    then show "step cfg e (movement, jump) = step cfg e (0, jump)"
      using assms by (simp add: step_def)
  qed
  moreover have "jump \<noteq> 1 \<longrightarrow>
      step cfg e (movement, jump) =
        (case step cfg e (movement, 0) of
           Inl err \<Rightarrow> Inl err
         | Inr (e', r) \<Rightarrow> Inr (e'\<lparr>prev_jump := jump\<rparr>, r))"
  proof
    assume j: "jump \<noteq> 1"
    obtain e1 r1 where c0: "step_core cfg e st (movement, 0) = (e1, r1)"
      by (cases "step_core cfg e st (movement, 0)")
    have "step_core cfg e st (movement, jump) = (e1\<lparr>prev_jump := jump\<rparr>, r1)"
      using step_core_jump [OF j, of cfg e st movement] c0 by simp
    then show "step cfg e (movement, jump) =
        (case step cfg e (movement, 0) of
           Inl err \<Rightarrow> Inl err
         | Inr (e', r) \<Rightarrow> Inr (e'\<lparr>prev_jump := jump\<rparr>, r))"
      using assms c0 by (simp add: step_def)
  qed
  ultimately show ?thesis by blast
qed

theorem step_accepts_everything_witness:
  "reset v0 None init_env = Inr (grounded_env 1 0 0 0, [1, 0, 0, 0, 0, 19, 9, 1])
   \<and> (state (grounded_env 1 0 0 0) = Some (1, 0, 0, 0)
   \<and> (\<exists>e' r. step v0 (grounded_env 1 0 0 0) (7, 5) = Inr (e', r))
   \<and> (7::int) \<noteq> 1 \<and> (7::int) \<noteq> 2
   \<and> step v0 (grounded_env 1 0 0 0) (7, 5) = step v0 (grounded_env 1 0 0 0) (0, 5)
   \<and> (5::int) \<noteq> 1
   \<and> step v0 (grounded_env 1 0 0 0) (7, 5) =
         (case step v0 (grounded_env 1 0 0 0) (7, 0) of
            Inl err \<Rightarrow> Inl err
          | Inr (e', r) \<Rightarrow> Inr (e'\<lparr>prev_jump := 5\<rparr>, r)))" (is "_ \<and> ?main")
proof (rule conjI [OF reset_fresh])
  have h: "state (grounded_env 1 0 0 0) = Some (1, 0, 0, 0)"
    by (simp add: reset_result_def reset_body_def grounded_env_def Let_def v0_def)
  note t = step_accepts_everything [OF h, of v0 7 5]
  have n7: "(7::int) \<noteq> 1 \<and> (7::int) \<noteq> 2" and n5: "(5::int) \<noteq> 1" by simp_all
  have t1: "\<exists>e' r. step v0 (grounded_env 1 0 0 0) (7, 5) = Inr (e', r)"
    using t by blast
  have t2: "step v0 (grounded_env 1 0 0 0) (7, 5) = step v0 (grounded_env 1 0 0 0) (0, 5)"
    using t n7 by blast
  have t3: "step v0 (grounded_env 1 0 0 0) (7, 5) =
         (case step v0 (grounded_env 1 0 0 0) (7, 0) of
            Inl err \<Rightarrow> Inl err
          | Inr (e', r) \<Rightarrow> Inr (e'\<lparr>prev_jump := 5\<rparr>, r))"
    using t n5 by blast
  show ?main
    by (intro conjI, rule h, rule t1, simp, simp, rule t2, simp, rule t3)
qed

subsection \<open>Standing still at the start\<close>

text \<open>The instance after \<open>n\<close> steps of \<open>(0, 0)\<close> from \<^verbatim>\<open>reset\<close> in v0.\<close>

lemma idle_step:
  "step v0 ((grounded_env 1 0 0 0)\<lparr>steps := n\<rparr>) (0, 0) =
     Inr ((grounded_env 1 0 0 0)\<lparr>steps := n + 1\<rparr>, idle_result (n + 1))"
  by (simp add: step_defs v0_def reset_result_def reset_body_def grounded_env_def init_env_def idle_result_def)

lemma idle_run:
  "run v0 ((grounded_env 1 0 0 0)\<lparr>steps := n\<rparr>) (replicate k (0, 0)) =
     Inr ((grounded_env 1 0 0 0)\<lparr>steps := n + int k\<rparr>,
          map (\<lambda>i. idle_result (n + 1 + int i)) [0..<k])"
proof (induction k arbitrary: n)
  case 0
  then show ?case by simp
next
  case (Suc k)
  have "map (\<lambda>i. idle_result (n + 1 + int i)) [0..<Suc k]
          = idle_result (n + 1) # map (\<lambda>i. idle_result (n + 1 + 1 + int i)) [0..<k]"
    by (simp add: upt_conv_Cons map_Suc_upt [symmetric] add.commute add.left_commute del: upt_Suc)
  then show ?case
    using Suc.IH [of "n + 1"] by (simp add: idle_step algebra_simps del: upt_Suc)
qed

lemma reset_steps: "(grounded_env 1 0 0 0)\<lparr>steps := 0\<rparr> = grounded_env 1 0 0 0"
  by (simp add: reset_result_def reset_body_def grounded_env_def Let_def v0_def init_env_def)

text \<open>
  C5 fails on the code.  A thousand steps of \<open>(0, 0)\<close> from \<^verbatim>\<open>reset\<close> end with
  \<open>truncated\<close> true; the next \<^verbatim>\<open>step\<close>, without \<^verbatim>\<open>reset\<close>, returns normally with
  step count 1001.  And the action \<open>(7, 5)\<close>, outside both ranges, is accepted
  at the start: the player stands still and 5 is stored as the previous jump
  value.
\<close>

theorem step_accepts_everything_counterexample:
  "reset v0 None init_env = Inr (grounded_env 1 0 0 0, [1, 0, 0, 0, 0, 19, 9, 1])
   \<and> (run v0 (grounded_env 1 0 0 0) (replicate 1000 (0, 0)) =
     Inr ((grounded_env 1 0 0 0)\<lparr>steps := 1000\<rparr>,
          map (\<lambda>i. idle_result (1 + int i)) [0..<1000])
   \<and> truncated (idle_result (1 + int 999))
   \<and> step v0 ((grounded_env 1 0 0 0)\<lparr>steps := 1000\<rparr>) (0, 0) =
       Inr ((grounded_env 1 0 0 0)\<lparr>steps := 1001\<rparr>, idle_result 1001)
   \<and> step v0 (grounded_env 1 0 0 0) (7, 5) =
       Inr ((grounded_env 1 0 0 0)\<lparr>steps := 1, prev_jump := 5\<rparr>, idle_result 1))" (is "_ \<and> ?main")
proof (rule conjI [OF reset_fresh])
  have a: "run v0 (grounded_env 1 0 0 0) (replicate 1000 (0, 0)) =
     Inr ((grounded_env 1 0 0 0)\<lparr>steps := 1000\<rparr>,
          map (\<lambda>i. idle_result (1 + int i)) [0..<1000])"
    using idle_run [of 0 1000] by (simp add: reset_steps)
  have b: "truncated (idle_result (1 + int 999))" by (simp add: idle_result_def)
  have c: "step v0 ((grounded_env 1 0 0 0)\<lparr>steps := 1000\<rparr>) (0, 0) =
       Inr ((grounded_env 1 0 0 0)\<lparr>steps := 1001\<rparr>, idle_result 1001)"
    using idle_step [of 1000] by simp
  have d: "step v0 (grounded_env 1 0 0 0) (7, 5) =
       Inr ((grounded_env 1 0 0 0)\<lparr>steps := 1, prev_jump := 5\<rparr>, idle_result 1)"
    by (simp add: step_defs v0_def reset_result_def reset_body_def grounded_env_def init_env_def idle_result_def)
  show ?main using a b c d by blast
qed

subsection \<open>The terms of the reward\<close>

lemma finish_step_reward:
  "reward (snd (finish_step cfg e x y r0 (x', y', vx', vy'))) =
     r0 + progress_reward cfg x x' + ascent_reward cfg y y' - 0.01
     + idle_penalty cfg (is_jumping e) vx'
     + (if landing_now cfg (is_jumping e) x' y' vy' then landing_reward cfg (y_before_jump e) y' else 0)
     + (case version cfg of V0 \<Rightarrow> 0
        | V1 \<Rightarrow> stagnation_penalty cfg (deque_append (stagnation_window cfg) (recent_x e) x'))
     + (if reached_flag cfg x' y' then terminal_bonus cfg (steps e) else 0)"
  by (cases "version cfg") (simp_all add: finish_step_def Let_def)

lemma finish_step_flags:
  "terminated (snd (finish_step cfg e x y r0 (x', y', vx', vy'))) = reached_flag cfg x' y'"
  "truncated (snd (finish_step cfg e x y r0 (x', y', vx', vy'))) = (steps e \<ge> max_steps cfg)"
  by (cases "version cfg"; simp add: finish_step_def Let_def)+

lemma step_core_reward:
  assumes "state (fst (step_core cfg e (x, y, vx0, vy0) (movement, jump))) = Some (x', y', vx', vy')"
  shows "reward (snd (step_core cfg e (x, y, vx0, vy0) (movement, jump))) =
     jump_held_penalty cfg jump + progress_reward cfg x x' + ascent_reward cfg y y' - 0.01
     + idle_penalty cfg (jumping_flag cfg e (x, y, vx0, vy0) jump) vx'
     + (if landing_now cfg (jumping_flag cfg e (x, y, vx0, vy0) jump) x' y' vy'
        then landing_reward cfg (if jump_triggers cfg e (x, y, vx0, vy0) jump then y else y_before_jump e) y'
        else 0)
     + (case version cfg of V0 \<Rightarrow> 0
        | V1 \<Rightarrow> stagnation_penalty cfg (deque_append (stagnation_window cfg) (recent_x e) x'))
     + (if reached_flag cfg x' y' then terminal_bonus cfg (steps e + 1) else 0)"
proof -
  let ?st = "(x, y, vx0, vy0)"
  let ?p = "wall_collision cfg x y (proposed cfg e ?st (movement, jump))"
  have p: "?p = (x', y', vx', vy')"
    using assms state_step_core [of cfg e x y vx0 vy0 movement jump] by simp
  have "step_core cfg e ?st (movement, jump) =
          finish_step cfg (fst (apply_action cfg e ?st (movement, jump))) x y
            (jump_held_penalty cfg jump) (x', y', vx', vy')"
    using p by (simp add: step_core_def proposed_def Let_def split_beta)
  then show ?thesis
    by (cases "version cfg") (simp_all add: finish_step_reward apply_action_fields jumping_flag_def)
qed

text \<open>
  C9 (as the code has it).  The reward of a step is the sum of its terms, and
  the idle term is \<open>- 0.05\<close> exactly when the stored \<open>vx\<close> is below \<open>0.001\<close> in
  absolute value and, in v0, the \<^verbatim>\<open>is_jumping\<close> flag is false at that point;
  in v1 the flag plays no part.
\<close>

theorem idle_penalty_condition:
  assumes "state e = Some (x, y, vx0, vy0)"
    and "step cfg e (movement, jump) = Inr (e', r)"
    and "state e' = Some (x', y', vx', vy')"
  shows "reward r =
     jump_held_penalty cfg jump + progress_reward cfg x x' + ascent_reward cfg y y' - 0.01
     + (if \<bar>vx'\<bar> < 0.001 \<and> (version cfg = V0 \<longrightarrow> \<not> jumping_flag cfg e (x, y, vx0, vy0) jump)
        then - 0.05 else 0)
     + (if landing_now cfg (jumping_flag cfg e (x, y, vx0, vy0) jump) x' y' vy'
        then landing_reward cfg (if jump_triggers cfg e (x, y, vx0, vy0) jump then y else y_before_jump e) y'
        else 0)
     + (case version cfg of V0 \<Rightarrow> 0
        | V1 \<Rightarrow> stagnation_penalty cfg (deque_append (stagnation_window cfg) (recent_x e) x'))
     + (if reached_flag cfg x' y' then terminal_bonus cfg (steps e + 1) else 0)"
proof -
  have c: "step_core cfg e (x, y, vx0, vy0) (movement, jump) = (e', r)"
    using assms(1,2) by (simp add: step_def)
  have i: "idle_penalty cfg (jumping_flag cfg e (x, y, vx0, vy0) jump) vx' =
      (if \<bar>vx'\<bar> < 0.001 \<and> (version cfg = V0 \<longrightarrow> \<not> jumping_flag cfg e (x, y, vx0, vy0) jump)
       then - 0.05 else 0)"
    by (cases "version cfg") (simp_all add: idle_penalty_def)
  show ?thesis
    using step_core_reward [of cfg e x y vx0 vy0 movement jump x' y' vx' vy'] c assms(3) i
    by simp
qed

subsection \<open>Walking on the ground in v0\<close>

lemma v0_fields:
  "version v0 = V0" "speed_factor v0 = 0.1" "jump_cooldown_max v0 = 60"
  "player_height v0 = 0.6" "player_half_width v0 = 0.3"
  "dt v0 = 0.02" "max_steps v0 = 1000" "gravity v0 = - 30" "move_speed v0 = 4" "jump_speed v0 = 12"
  "start_x v0 = 1" "start_y v0 = 0" "flag_x v0 = 20" "flag_y v0 = 0"
  "wall_x v0 = 10" "wall_width v0 = 0.6" "wall_height v0 = 7"
  "bug_gap_y_min v0 = 1" "bug_gap_y_max v0 = 3" "platform_thickness v0 = 0.2"
  "platforms v0 = [(4.0, 8.5, 1.5), (6.0, 9.0, 3.0), (5.0, 6.5, 4.5), (7.0, 10.0, 6.0)]"
  by (simp_all add: v0_def)

lemma reset_grounded: "fst (reset_result v0 seed init_env) = (grounded_env 1 0 0 0)\<lparr>np_random_seed := seed\<rparr>"
  by (cases seed) (simp_all add: reset_result_def reset_body_def grounded_env_def Let_def v0_fields grounded_env_def init_env_def)

lemma episode_flags_Nil: "episode_flags cfg e [] = Some (e, [])"
  by (simp add: episode_flags_def)

lemma episode_flags_Cons:
  "episode_flags cfg e (a # as) =
     (case step cfg e a of
        Inl err \<Rightarrow> None
      | Inr (e', r) \<Rightarrow>
         (case episode_flags cfg e' as of
            None \<Rightarrow> None
          | Some (e'', fs) \<Rightarrow> Some (e'', (terminated r, truncated r) # fs)))"
  by (simp add: episode_flags_def split: sum.splits prod.splits)

lemma episode_flags_append:
  "episode_flags cfg e (as @ bs) =
     (case episode_flags cfg e as of
        None \<Rightarrow> None
      | Some (e', fs) \<Rightarrow>
         (case episode_flags cfg e' bs of
            None \<Rightarrow> None
          | Some (e'', gs) \<Rightarrow> Some (e'', fs @ gs)))"
proof (induction as arbitrary: e)
  case Nil
  then show ?case by (simp add: episode_flags_Nil split: option.splits)
next
  case (Cons a as)
  show ?case
    by (simp add: episode_flags_Cons Cons.IH split: sum.splits option.splits prod.splits)
qed

lemma walk_step:
  assumes "x + 0.08 \<le> 9.4 \<or> 10.6 \<le> x + 0.08"
  shows "episode_flags v0 (grounded_env x vx n c) [(2, 0)] =
           Some (grounded_env (x + 0.08) 4 (n + 1) (tick_cooldown c),
                 [(\<bar>x + 0.08 - 20\<bar> < 0.5, n + 1 \<ge> 1000)])"
  using assms
  by (auto simp: episode_flags_def step_defs v0_fields grounded_env_def)

lemma blocked_step:
  assumes "x \<le> 9.4" "9.4 < x + 0.08"
  shows "episode_flags v0 (grounded_env x vx n c) [(2, 0)] =
           Some (grounded_env 9.4 0 (n + 1) (tick_cooldown c), [(False, n + 1 \<ge> 1000)])"
  using assms
  by (auto simp: episode_flags_def step_defs v0_fields grounded_env_def)

text \<open>The flags of \<open>k\<close> steps that do not reach the flag, from step count \<open>n\<close>.\<close>

lemma upt_shift: "[0..<Suc k] = 0 # map Suc [0..<k]"
  by (simp add: upt_conv_Cons map_Suc_upt del: upt_Suc)

lemma flags_before_limit:
  assumes "n + int k < 1000"
  shows "map (\<lambda>i. (False, n + 1 + int i \<ge> 1000)) [0..<k] = replicate k (False, False)"
proof -
  have "map (\<lambda>i. (False, n + 1 + int i \<ge> 1000)) [0..<k] = map (\<lambda>i. (False, False)) [0..<k]"
    using assms by (intro map_cong) auto
  then show ?thesis by (simp add: map_replicate_trivial)
qed

lemma walk_run:
  assumes "x + 0.08 * real k \<le> 9.4 \<or> (10.6 \<le> x + 0.08 \<and> x + 0.08 * real k \<le> 19.5)" and "0 \<le> c"
  shows "episode_flags v0 (grounded_env x vx n c) (replicate k (2, 0)) =
           Some (grounded_env (x + 0.08 * real k) (if k = 0 then vx else 4) (n + int k) (max 0 (c - int k)),
                 map (\<lambda>i. (False, n + 1 + int i \<ge> 1000)) [0..<k])"
  using assms
proof (induction k arbitrary: x vx n c)
  case 0
  then show ?case by (simp add: episode_flags_Nil)
next
  case (Suc k)
  define d where "d = 0.08 * real k"
  have d0: "0 \<le> d" by (simp add: d_def)
  have dS: "0.08 * real (Suc k) = d + 0.08" by (simp add: d_def algebra_simps)
  have pre: "x + (d + 0.08) \<le> 9.4 \<or> (10.6 \<le> x + 0.08 \<and> x + (d + 0.08) \<le> 19.5)"
    using Suc.prems(1) unfolding dS .
  have s1: "x + 0.08 \<le> 9.4 \<or> 10.6 \<le> x + 0.08"
    using pre d0 by (auto simp: power2_eq_square)
  have nf: "\<not> \<bar>x + 0.08 - 20\<bar> < 0.5"
    using pre d0 by (auto simp: power2_eq_square abs_if split: if_splits)
  have st: "episode_flags v0 (grounded_env x vx n c) [(2, 0)] =
           Some (grounded_env (x + 0.08) 4 (n + 1) (tick_cooldown c), [(False, n + 1 \<ge> 1000)])"
    using walk_step [OF s1, of vx n c] nf by simp
  have c2: "(x + 0.08) + 0.08 * real k \<le> 9.4
            \<or> (10.6 \<le> (x + 0.08) + 0.08 \<and> (x + 0.08) + 0.08 * real k \<le> 19.5)"
    using pre d0 unfolding d_def [symmetric] by (auto simp: power2_eq_square)
  have c3: "0 \<le> tick_cooldown c" using Suc.prems(2) by (simp add: tick_cooldown_def)
  have ih: "episode_flags v0 (grounded_env (x + 0.08) 4 (n + 1) (tick_cooldown c)) (replicate k (2, 0)) =
           Some (grounded_env (x + 0.08 + 0.08 * real k) (if k = 0 then 4 else 4) (n + 1 + int k)
                   (max 0 (tick_cooldown c - int k)),
                 map (\<lambda>i. (False, n + 1 + 1 + int i \<ge> 1000)) [0..<k])"
    using Suc.IH [OF c2 c3, of 4 "n + 1"] by simp
  have cd: "max 0 (tick_cooldown c - int k) = max 0 (c - int (Suc k))"
    using Suc.prems(2) by (auto simp: tick_cooldown_def max_def)
  have xs: "x + 0.08 + 0.08 * real k = x + 0.08 * real (Suc k)"
    unfolding dS d_def by simp
  have fl: "(False, n + 1 \<ge> 1000) # map (\<lambda>i. (False, n + 1 + 1 + int i \<ge> 1000)) [0..<k]
            = map (\<lambda>i. (False, n + 1 + int i \<ge> 1000)) [0..<Suc k]"
    unfolding upt_shift by (simp add: algebra_simps)
  have "replicate (Suc k) (2::int, 0::int) = [(2, 0)] @ replicate k (2, 0)" by simp
  then have "episode_flags v0 (grounded_env x vx n c) (replicate (Suc k) (2, 0)) =
      Some (grounded_env (x + 0.08 + 0.08 * real k) 4 (n + 1 + int k) (max 0 (tick_cooldown c - int k)),
            (False, n + 1 \<ge> 1000) # map (\<lambda>i. (False, n + 1 + 1 + int i \<ge> 1000)) [0..<k])"
    using st ih by (simp only: episode_flags_append) simp
  then show ?case
    unfolding cd xs fl by (simp add: algebra_simps)
qed

lemma blocked_run:
  assumes "0 \<le> c"
  shows "episode_flags v0 (grounded_env 9.4 vx n c) (replicate k (2, 0)) =
           Some (grounded_env 9.4 (if k = 0 then vx else 0) (n + int k) (max 0 (c - int k)),
                 map (\<lambda>i. (False, n + 1 + int i \<ge> 1000)) [0..<k])"
  using assms
proof (induction k arbitrary: vx n c)
  case 0
  then show ?case by (simp add: episode_flags_Nil)
next
  case (Suc k)
  have st: "episode_flags v0 (grounded_env 9.4 vx n c) [(2, 0)] =
           Some (grounded_env 9.4 0 (n + 1) (tick_cooldown c), [(False, n + 1 \<ge> 1000)])"
    using blocked_step [of "9.4" vx n c] by simp
  have c3: "0 \<le> tick_cooldown c" using Suc.prems by (simp add: tick_cooldown_def)
  have ih: "episode_flags v0 (grounded_env 9.4 0 (n + 1) (tick_cooldown c)) (replicate k (2, 0)) =
           Some (grounded_env 9.4 0 (n + 1 + int k) (max 0 (tick_cooldown c - int k)),
                 map (\<lambda>i. (False, n + 1 + 1 + int i \<ge> 1000)) [0..<k])"
    using Suc.IH [OF c3, of 0 "n + 1"] by simp
  have cd: "max 0 (tick_cooldown c - int k) = max 0 (c - int (Suc k))"
    using Suc.prems by (auto simp: tick_cooldown_def max_def)
  have fl: "(False, n + 1 \<ge> 1000) # map (\<lambda>i. (False, n + 1 + 1 + int i \<ge> 1000)) [0..<k]
            = map (\<lambda>i. (False, n + 1 + int i \<ge> 1000)) [0..<Suc k]"
    unfolding upt_shift by (simp add: algebra_simps)
  have "replicate (Suc k) (2::int, 0::int) = [(2, 0)] @ replicate k (2, 0)" by simp
  then have "episode_flags v0 (grounded_env 9.4 vx n c) (replicate (Suc k) (2, 0)) =
      Some (grounded_env 9.4 0 (n + 1 + int k) (max 0 (tick_cooldown c - int k)),
            (False, n + 1 \<ge> 1000) # map (\<lambda>i. (False, n + 1 + 1 + int i \<ge> 1000)) [0..<k])"
    using st ih by (simp only: episode_flags_append) simp
  then show ?case
    unfolding cd fl by (simp add: algebra_simps)
qed

subsection \<open>Walking right from the start: the wall blocks the way\<close>

lemma no_termination_flags:
  "list_all (\<lambda>f. \<not> fst f) (map (\<lambda>i. (False, P i)) xs)"
  by (simp add: list_all_iff)

lemma walk_from_start:
  "\<exists>fs. episode_flags v0 (grounded_env 1 0 0 0) (replicate n (2, 0)) =
           Some (grounded_env (min (1 + 0.08 * real n) 9.4) (if n = 0 \<or> 105 < n then 0 else 4) (int n) 0, fs)
         \<and> list_all (\<lambda>f. \<not> fst f) fs"
proof (cases "n \<le> 105")
  case True
  then have "real n \<le> 105" by simp
  then have le: "1 + 0.08 * real n \<le> 9.4" by simp
  have "episode_flags v0 (grounded_env 1 0 0 0) (replicate n (2, 0)) =
           Some (grounded_env (1 + 0.08 * real n) (if n = 0 then 0 else 4) (0 + int n) (max 0 (0 - int n)),
                 map (\<lambda>i. (False, 0 + 1 + int i \<ge> 1000)) [0..<n])"
    using walk_run [of 1 n 0 0 0] le by simp
  moreover have "min (1 + 0.08 * real n) 9.4 = 1 + 0.08 * real n" using le by simp
  ultimately show ?thesis using True no_termination_flags by auto
next
  case False
  then obtain m where n: "n = 105 + Suc m"
    by (metis add_Suc_right less_imp_Suc_add not_le)
  have a: "episode_flags v0 (grounded_env 1 0 0 0) (replicate 105 (2, 0)) =
           Some (grounded_env 9.4 4 105 0, map (\<lambda>i. (False, 0 + 1 + int i \<ge> 1000)) [0..<105])"
    using walk_run [of 1 105 0 0 0] by simp
  have b: "episode_flags v0 (grounded_env 9.4 4 105 0) (replicate (Suc m) (2, 0)) =
           Some (grounded_env 9.4 0 (105 + int (Suc m)) (max 0 (0 - int (Suc m))),
                 map (\<lambda>i. (False, 105 + 1 + int i \<ge> 1000)) [0..<Suc m])"
    using blocked_run [of 0 4 105 "Suc m"] by simp
  have r: "replicate n (2::int, 0::int) = replicate 105 (2, 0) @ replicate (Suc m) (2, 0)"
    unfolding n by (simp only: replicate_add)
  have "episode_flags v0 (grounded_env 1 0 0 0) (replicate n (2, 0)) =
         Some (grounded_env 9.4 0 (int n) 0,
               map (\<lambda>i. (False, 0 + 1 + int i \<ge> 1000)) [0..<105]
               @ map (\<lambda>i. (False, 105 + 1 + int i \<ge> 1000)) [0..<Suc m])"
    unfolding r episode_flags_append a using b by (simp add: n)
  moreover have "1 + 0.08 * real n > 9.4" using False by simp
  then have "min (1 + 0.08 * real n) 9.4 = 9.4" by simp
  ultimately show ?thesis using False no_termination_flags by (auto simp del: upt_Suc)
qed

subsection \<open>Reaching the flag\<close>

lemma wall_collision_x:
  assumes "wall_collision v0 x y (x_new, y_new, vx, vy) = (x', y', vx', vy')" and "19.5 < x'"
  shows "x' = x_new"
  using assms by (auto simp: wall_collision_def Let_def v0_fields wall_left_def wall_right_def split: if_splits)

lemma control_vx_bound: "\<bar>control_vx v0 movement\<bar> \<le> 4"
  by (simp add: control_vx_def v0_fields)

lemma step_reaching_flag:
  assumes s: "step v0 e (movement, jump) = Inr (e', r)"
    and st': "state e' = Some (x', y', vx', vy')"
    and fl: "reached_flag v0 x' y'"
  shows "terminated r \<and> (steps e' \<le> 989 \<longrightarrow> 10 \<le> reward r)"
proof -
  obtain x y vx0 vy0 where st: "state e = Some (x, y, vx0, vy0)"
    using s by (cases "state e") (auto simp: step_def)
  have c: "step_core v0 e (x, y, vx0, vy0) (movement, jump) = (e', r)"
    using s st by (simp add: step_def)
  obtain x_new y_new vx vy where pr: "proposed v0 e (x, y, vx0, vy0) (movement, jump) = (x_new, y_new, vx, vy)"
    by (cases "proposed v0 e (x, y, vx0, vy0) (movement, jump)")
  have w: "wall_collision v0 x y (x_new, y_new, vx, vy) = (x', y', vx', vy')"
    using state_step_core [of v0 e x y vx0 vy0 movement jump] c pr st' by simp
  have x19: "19.5 < x'" using fl by (auto simp: reached_flag_def v0_fields abs_if split: if_splits)
  have xn: "x_new = x + control_vx v0 movement * 0.02"
    using pr propose_vx [of v0 x y "control_vx v0 movement" _ x_new y_new vx vy]
    by (simp add: proposed_def v0_fields)
  have x': "x' = x + control_vx v0 movement * 0.02"
    using wall_collision_x [OF w x19] xn by simp
  have dx: "\<bar>x' - x\<bar> \<le> 0.08"
    using control_vx_bound [of movement] x' by (auto simp: abs_if split: if_splits)
  have "snd (finish_step v0 (fst (apply_action v0 e (x, y, vx0, vy0) (movement, jump))) x y
              (jump_held_penalty v0 jump) (x', y', vx', vy')) = r"
    using c w pr by (simp add: step_core_def proposed_def Let_def split_beta)
  then have t: "terminated r"
    using fl finish_step_flags(1) [of v0 "fst (apply_action v0 e (x, y, vx0, vy0) (movement, jump))"
        x y "jump_held_penalty v0 jump" x' y' vx' vy'] by simp
  have n: "steps e' = steps e + 1"
    using c step_core_bookkeeping(3) [of v0 e "(x, y, vx0, vy0)" movement jump] by simp
  have rw: "reward r =
     jump_held_penalty v0 jump + progress_reward v0 x x' + ascent_reward v0 y y' - 0.01
     + idle_penalty v0 (jumping_flag v0 e (x, y, vx0, vy0) jump) vx'
     + (if landing_now v0 (jumping_flag v0 e (x, y, vx0, vy0) jump) x' y' vy'
        then landing_reward v0 (if jump_triggers v0 e (x, y, vx0, vy0) jump then y else y_before_jump e) y'
        else 0)
     + terminal_bonus v0 (steps e + 1)"
    using step_core_reward [of v0 e x y vx0 vy0 movement jump x' y' vx' vy'] c st' fl
    by (simp add: v0_fields)
  have b1: "- 0.02 \<le> jump_held_penalty v0 jump" by (simp add: jump_held_penalty_def v0_fields)
  have b2: "- 0.016 \<le> progress_reward v0 x x'"
    using dx by (auto simp: progress_reward_def Let_def v0_fields abs_if split: if_splits)
  have b3: "0 \<le> ascent_reward v0 y y'" by (simp add: ascent_reward_def v0_fields)
  have b4: "- 0.05 \<le> idle_penalty v0 (jumping_flag v0 e (x, y, vx0, vy0) jump) vx'"
    by (simp add: idle_penalty_def Let_def v0_fields)
  have b5: "- 1 \<le> (if landing_now v0 (jumping_flag v0 e (x, y, vx0, vy0) jump) x' y' vy'
        then landing_reward v0 (if jump_triggers v0 e (x, y, vx0, vy0) jump then y else y_before_jump e) y'
        else 0)"
    by (simp add: landing_reward_def Let_def v0_fields)
  have b6: "steps e' \<le> 989 \<Longrightarrow> 11.1 \<le> terminal_bonus v0 (steps e + 1)"
    using n by (simp add: terminal_bonus_def Let_def v0_fields)
  have "steps e' \<le> 989 \<longrightarrow> 10 \<le> reward r"
  proof
    assume "steps e' \<le> 989"
    then have "11.1 \<le> terminal_bonus v0 (steps e + 1)" by (rule b6)
    then show "10 \<le> reward r"
      unfolding rw using b1 b2 b3 b4 b5 by (simp add: power2_eq_square)
  qed
  then show ?thesis using t by simp
qed

text \<open>
  C3 fails on the code.  Under \<open>(2, 0)\<close> repeated from \<^verbatim>\<open>reset\<close> in v0, no step
  ever returns \<open>terminated\<close>: the wall is in the way.
\<close>

theorem flag_scenario_counterexample:
  "reset v0 None init_env = Inr (grounded_env 1 0 0 0, [1, 0, 0, 0, 0, 19, 9, 1])
   \<and> (\<not> (\<exists>n e' fs. episode_flags v0 (grounded_env 1 0 0 0) (replicate n (2, 0)) = Some (e', fs)
                  \<and> list_ex fst fs))" (is "_ \<and> ?main")
proof (rule conjI [OF reset_fresh], rule notI)
  assume "\<exists>n e' fs. episode_flags v0 (grounded_env 1 0 0 0) (replicate n (2, 0)) = Some (e', fs)
                  \<and> list_ex fst fs"
  then obtain n e' fs where
    a: "episode_flags v0 (grounded_env 1 0 0 0) (replicate n (2, 0)) = Some (e', fs)"
    and b: "list_ex fst fs" by blast
  have "list_all (\<lambda>f. \<not> fst f) fs"
    using walk_from_start [of n] a by (auto simp: reset_grounded grounded_env_def)
  then show False using b by (auto simp: list_all_iff list_ex_iff)
qed

text \<open>
  C3 (as the code has it).  In v0, \<^verbatim>\<open>reset\<close> (with a seed it accepts, the
  absent one included) yields the state \<open>(1, 0, 0, 0)\<close>;
  under \<open>(2, 0)\<close> repeated, \<open>x\<close> advances by \<open>0.08\<close> per step up to \<open>9.4\<close>, where
  the wall holds it, \<open>y\<close> stays 0 and no step returns \<open>terminated\<close>; and on any
  step of any episode that ends within \<open>0.5\<close> of the flag on both axes,
  \<open>terminated\<close> is true and the reward is at least 10 as long as the step
  count is at most 989.
\<close>

theorem flag_scenario:
  "(seed_accepted seed \<longrightarrow>
      (\<exists>e ob. reset v0 seed e0 = Inr (e, ob) \<and> state e = Some (1, 0, 0, 0)))
   \<and> reset v0 None init_env = Inr (grounded_env 1 0 0 0, [1, 0, 0, 0, 0, 19, 9, 1])
   \<and> (\<exists>e' fs. episode_flags v0 (grounded_env 1 0 0 0) (replicate n (2, 0)) = Some (e', fs)
         \<and> state e' = Some (min (1 + 0.08 * real n) 9.4, 0, if n = 0 \<or> 105 < n then 0 else 4, 0)
         \<and> list_all (\<lambda>f. \<not> fst f) fs)
   \<and> (step v0 e (movement, jump) = Inr (e1, r) \<and> state e1 = Some (x', y', vx', vy')
        \<and> reached_flag v0 x' y'
      \<longrightarrow> terminated r \<and> (steps e1 \<le> 989 \<longrightarrow> 10 \<le> reward r))"
proof -
  have "state (fst (reset_result v0 seed e0)) = Some (1, 0, 0, 0)"
    by (simp add: reset_result_def reset_body_def Let_def v0_fields split: option.splits)
  then have a: "seed_accepted seed \<longrightarrow>
      (\<exists>e ob. reset v0 seed e0 = Inr (e, ob) \<and> state e = Some (1, 0, 0, 0))"
    using reset_accepted [of seed v0 e0] by (metis prod.collapse)
  have b: "\<exists>e' fs. episode_flags v0 (grounded_env 1 0 0 0) (replicate n (2, 0)) = Some (e', fs)
         \<and> state e' = Some (min (1 + 0.08 * real n) 9.4, 0, if n = 0 \<or> 105 < n then 0 else 4, 0)
         \<and> list_all (\<lambda>f. \<not> fst f) fs"
    using walk_from_start [of n] by (auto simp: reset_grounded grounded_env_def)
  show ?thesis using a b reset_fresh step_reaching_flag by blast
qed

theorem flag_scenario_witness:
  "reset v0 None init_env = Inr (grounded_env 1 0 0 0, [1, 0, 0, 0, 0, 19, 9, 1])
   \<and> (step v0 (grounded_env 19.48 4 231 0) (2, 0) =
     Inr (grounded_env 19.56 4 232 0,
          \<lparr>obs = [19.56, 0, 4, 0, 0, 0.44, - 9.56, 1], reward = 86.806, terminated = True,
            truncated = False\<rparr>)
   \<and> state (grounded_env 19.56 4 232 0) = Some (19.56, 0, 4, 0)
   \<and> reached_flag v0 19.56 0
   \<and> steps (grounded_env 19.56 4 232 0) \<le> 989
   \<and> terminated \<lparr>obs = [19.56, 0, 4, 0, 0, 0.44, - 9.56, 1], reward = 86.806, terminated = True,
            truncated = False\<rparr>
   \<and> 10 \<le> reward \<lparr>obs = [19.56, 0, 4, 0, 0, 0.44, - 9.56, 1], reward = 86.806, terminated = True,
            truncated = False\<rparr>
   \<and> (\<exists>e' fs. episode_flags v0 (grounded_env 1 0 0 0) (replicate 200 (2, 0)) = Some (e', fs)
         \<and> state e' = Some (9.4, 0, 0, 0) \<and> list_all (\<lambda>f. \<not> fst f) fs)
   \<and> seed_accepted None
   \<and> (\<exists>e ob. reset v0 None init_env = Inr (e, ob) \<and> state e = Some (1, 0, 0, 0)))" (is "_ \<and> ?main")
proof (rule conjI [OF reset_fresh])
  let ?r = "\<lparr>obs = [19.56, 0, 4, 0, 0, 0.44, - 9.56, 1], reward = 86.806, terminated = True,
            truncated = False\<rparr>"
  have h1: "step v0 (grounded_env 19.48 4 231 0) (2, 0) = Inr (grounded_env 19.56 4 232 0, ?r)"
    by (simp add: step_defs v0_fields grounded_env_def)
  have h2: "state (grounded_env 19.56 4 232 0) = Some (19.56, 0, 4, 0)"
    by (simp add: grounded_env_def)
  have h3: "reached_flag v0 19.56 0" by (simp add: reached_flag_def v0_fields)
  have h4: "steps (grounded_env 19.56 4 232 0) \<le> 989" by (simp add: grounded_env_def)
  note t = flag_scenario [of None init_env 200 "grounded_env 19.48 4 231 0" 2 0
             "grounded_env 19.56 4 232 0" ?r "19.56" 0 4 0]
  have c1: "terminated ?r \<and> 10 \<le> reward ?r"
    using t h1 h2 h3 h4 by blast
  have m: "min (1 + 0.08 * real (200::nat)) 9.4 = (9.4::real)" by simp
  have c2: "\<exists>e' fs. episode_flags v0 (grounded_env 1 0 0 0) (replicate 200 (2, 0)) = Some (e', fs)
         \<and> state e' = Some (9.4, 0, 0, 0) \<and> list_all (\<lambda>f. \<not> fst f) fs"
    using t unfolding m by simp
  have sa: "seed_accepted None" by (simp add: seed_accepted_def)
  have c3: "\<exists>e ob. reset v0 None init_env = Inr (e, ob) \<and> state e = Some (1, 0, 0, 0)"
    using t sa by blast
  show ?main using h1 h2 h3 h4 c1 c2 sa c3 by blast
qed

subsection \<open>Termination and truncation\<close>

lemma step_flags:
  assumes s: "step cfg e a = Inr (e', r)" and st': "state e' = Some (x', y', vx', vy')"
  shows "terminated r = reached_flag cfg x' y' \<and> truncated r = (max_steps cfg \<le> steps e')
         \<and> steps e' = steps e + 1"
proof -
  obtain x y vx0 vy0 where st: "state e = Some (x, y, vx0, vy0)"
    using s by (cases "state e") (auto simp: step_def)
  obtain movement jump where a: "a = (movement, jump)" by (cases a)
  have c: "step_core cfg e (x, y, vx0, vy0) (movement, jump) = (e', r)"
    using s st a by (simp add: step_def)
  let ?e1 = "fst (apply_action cfg e (x, y, vx0, vy0) (movement, jump))"
  have w: "wall_collision cfg x y (proposed cfg e (x, y, vx0, vy0) (movement, jump)) = (x', y', vx', vy')"
    using state_step_core [of cfg e x y vx0 vy0 movement jump] c st' by simp
  have f: "finish_step cfg ?e1 x y (jump_held_penalty cfg jump) (x', y', vx', vy') = (e', r)"
    using c w by (simp add: step_core_def proposed_def Let_def split_beta)
  have n: "steps e' = steps e + 1"
    using c step_core_bookkeeping(3) [of cfg e "(x, y, vx0, vy0)" movement jump] by simp
  have n1: "steps ?e1 = steps e + 1" by (simp add: apply_action_fields)
  have "terminated r = reached_flag cfg x' y'"
    using f finish_step_flags(1) [of cfg ?e1 x y "jump_held_penalty cfg jump" x' y' vx' vy'] by simp
  moreover have "truncated r = (max_steps cfg \<le> steps e')"
    using f finish_step_flags(2) [of cfg ?e1 x y "jump_held_penalty cfg jump" x' y' vx' vy'] n n1 by simp
  ultimately show ?thesis using n by simp
qed

text \<open>
  C4 (as the code has it).  \<open>terminated\<close> is true exactly when the new position
  is within \<open>0.5\<close> of the flag on both axes, \<open>truncated\<close> exactly when the step
  count has reached \<open>max_steps\<close>; the two tests are independent.  On every step
  whose count is below \<open>max_steps\<close> at most one flag is true (\<open>truncated\<close> is
  false); from \<open>max_steps\<close> on, both are true whenever the flag is reached.
\<close>

theorem terminated_and_truncated:
  assumes "step cfg e a = Inr (e', r)" and "state e' = Some (x', y', vx', vy')"
  shows "terminated r = reached_flag cfg x' y'
         \<and> truncated r = (max_steps cfg \<le> steps e')
         \<and> steps e' = steps e + 1
         \<and> (steps e' < max_steps cfg \<longrightarrow> \<not> (terminated r \<and> truncated r))
         \<and> (max_steps cfg \<le> steps e' \<and> reached_flag cfg x' y' \<longrightarrow> terminated r \<and> truncated r)"
  using step_flags [OF assms] by auto

theorem terminated_and_truncated_witness:
  "step v0 (grounded_env 19.48 4 999 0) (2, 0) =
     Inr (grounded_env 19.56 4 1000 0,
          \<lparr>obs = [19.56, 0, 4, 0, 0, 0.44, - 9.56, 1], reward = 10.006, terminated = True,
            truncated = True\<rparr>)
   \<and> state (grounded_env 19.56 4 1000 0) = Some (19.56, 0, 4, 0)
   \<and> max_steps v0 \<le> steps (grounded_env 19.56 4 1000 0) \<and> reached_flag v0 19.56 0
   \<and> steps (grounded_env 19.56 4 1000 0) = steps (grounded_env 19.48 4 999 0) + 1
   \<and> step v0 (grounded_env 1 0 0 0) (2, 0) =
     Inr (grounded_env 1.08 4 1 0,
          \<lparr>obs = [1.08, 0, 4, 0, 0, 18.92, 8.92, 1], reward = 0.006, terminated = False,
            truncated = False\<rparr>)
   \<and> state (grounded_env 1.08 4 1 0) = Some (1.08, 0, 4, 0)
   \<and> steps (grounded_env 1.08 4 1 0) < max_steps v0
   \<and> \<not> reached_flag v0 1.08 0"
proof -
  let ?r = "\<lparr>obs = [19.56, 0, 4, 0, 0, 0.44, - 9.56, 1], reward = 10.006, terminated = True,
            truncated = True\<rparr>"
  let ?q = "\<lparr>obs = [1.08, 0, 4, 0, 0, 18.92, 8.92, 1], reward = 0.006, terminated = False,
            truncated = False\<rparr>"
  have h1: "step v0 (grounded_env 19.48 4 999 0) (2, 0) = Inr (grounded_env 19.56 4 1000 0, ?r)"
    by (simp add: step_defs v0_fields grounded_env_def)
  have h2: "state (grounded_env 19.56 4 1000 0) = Some (19.56, 0, 4, 0)"
    by (simp add: grounded_env_def)
  have h3: "max_steps v0 \<le> steps (grounded_env 19.56 4 1000 0)"
    by (simp add: grounded_env_def v0_fields)
  have g1: "step v0 (grounded_env 1 0 0 0) (2, 0) = Inr (grounded_env 1.08 4 1 0, ?q)"
    by (simp add: step_defs v0_fields grounded_env_def)
  have g2: "state (grounded_env 1.08 4 1 0) = Some (1.08, 0, 4, 0)"
    by (simp add: grounded_env_def)
  have g3: "steps (grounded_env 1.08 4 1 0) < max_steps v0"
    by (simp add: grounded_env_def v0_fields)
  have c1: "reached_flag v0 19.56 0
        \<and> steps (grounded_env 19.56 4 1000 0) = steps (grounded_env 19.48 4 999 0) + 1"
    using terminated_and_truncated [OF h1 h2] by simp
  have c2: "\<not> reached_flag v0 1.08 0"
    using terminated_and_truncated [OF g1 g2] by simp
  show ?thesis using h1 h2 h3 g1 g2 g3 c1 c2 by blast
qed

subsection \<open>An episode that reaches the flag on its last step\<close>

lemma idle_flags:
  assumes "int k < 1000"
  shows "episode_flags v0 (grounded_env 1 0 0 0) (replicate k (0, 0)) =
           Some (grounded_env 1 0 (int k) 0, replicate k (False, False))"
proof -
  have "run v0 (grounded_env 1 0 0 0) (replicate k (0, 0)) =
     Inr ((grounded_env 1 0 0 0)\<lparr>steps := int k\<rparr>, map (\<lambda>i. idle_result (1 + int i)) [0..<k])"
    using idle_run [of 0 k] by (simp add: grounded_env_def)
  then have "episode_flags v0 (grounded_env 1 0 0 0) (replicate k (0, 0)) =
      Some (grounded_env 1 0 (int k) 0, map (\<lambda>i. (False, 0 + 1 + int i \<ge> 1000)) [0..<k])"
    by (simp add: episode_flags_def grounded_env_def idle_result_def comp_def)
  then show ?thesis using flags_before_limit [of 0 k] assms by simp
qed

text \<open>
  The jump through the gap: from \<open>x = 8.84\<close> on the ground, one step with the
  jump pressed and 39 more to the right.  The player is at \<open>y = 1.188\<close>, inside
  the gap band, when its box first meets the wall, passes through, touches
  the ground again at \<open>x = 11.96\<close> and is at rest one step later.
\<close>

lemma jump_through_gap:
  "episode_flags v0 (grounded_env 8.84 4 866 0) ((2, 1) # replicate 39 (2, 0)) =
     Some (grounded_env 12.04 4 906 21, replicate 40 (False, False))"
  by (simp add: episode_flags_def step_defs v0_fields grounded_env_def numeral_eq_Suc)

text \<open>
  C4 fails on the code.  An episode of v0: 768 steps standing still, 98 steps
  to the right, a jump through the gap, and on to the flag.  The first 999
  steps return neither flag; step 1000 enters the flag region and returns
  both \<open>terminated\<close> and \<open>truncated\<close>.
\<close>

theorem terminated_and_truncated_counterexample:
  "reset v0 None init_env = Inr (grounded_env 1 0 0 0, [1, 0, 0, 0, 0, 19, 9, 1])
   \<and> (episode_flags v0 (grounded_env 1 0 0 0)
     (replicate 768 (0, 0) @ replicate 98 (2, 0) @ [(2, 1)] @ replicate 133 (2, 0)) =
     Some (grounded_env 19.56 4 1000 0, replicate 999 (False, False) @ [(True, True)]))" (is "_ \<and> ?main")
proof (rule conjI [OF reset_fresh])
  have s1: "episode_flags v0 (grounded_env 1 0 0 0) (replicate 768 (0, 0)) =
              Some (grounded_env 1 0 768 0, replicate 768 (False, False))"
    using idle_flags [of 768] by simp
  have s2: "episode_flags v0 (grounded_env 1 0 768 0) (replicate 98 (2, 0)) =
              Some (grounded_env 8.84 4 866 0, replicate 98 (False, False))"
    using walk_run [of 1 98 0 0 768] flags_before_limit [of 768 98] by simp
  note s3 = jump_through_gap
  have s4: "episode_flags v0 (grounded_env 12.04 4 906 21) (replicate 93 (2, 0)) =
              Some (grounded_env 19.48 4 999 0, replicate 93 (False, False))"
    using walk_run [of "12.04" 93 21 4 906] flags_before_limit [of 906 93] by simp
  have s5: "episode_flags v0 (grounded_env 19.48 4 999 0) [(2, 0)] =
              Some (grounded_env 19.56 4 1000 0, [(True, True)])"
    using walk_step [of "19.48" 4 999 0] by (simp add: tick_cooldown_def)
  have "replicate 133 (2::int, 0::int) = replicate (39 + (93 + 1)) (2, 0)" by simp
  also have "\<dots> = replicate 39 (2, 0) @ replicate 93 (2, 0) @ replicate 1 (2, 0)"
    by (simp only: replicate_add)
  finally have r: "replicate 133 (2::int, 0::int) = replicate 39 (2, 0) @ replicate 93 (2, 0) @ [(2, 0)]"
    by simp
  have acts: "replicate 768 (0::int, 0::int) @ replicate 98 (2, 0) @ [(2, 1)] @ replicate 133 (2, 0)
      = replicate 768 (0, 0) @ replicate 98 (2, 0) @ ((2, 1) # replicate 39 (2, 0))
        @ replicate 93 (2, 0) @ [(2, 0)]"
    unfolding r by simp
  have "replicate 999 (False, False) = replicate (768 + (98 + (40 + 93))) (False, False)" by simp
  also have "\<dots> = replicate 768 (False, False) @ replicate 98 (False, False)
                    @ replicate 40 (False, False) @ replicate 93 (False, False)"
    by (simp only: replicate_add)
  finally have f: "replicate 768 (False, False) @ replicate 98 (False, False) @ replicate 40 (False, False)
           @ replicate 93 (False, False) @ [(True, True)]
           = replicate 999 (False, False) @ [(True, True)]"
    by simp
  have "episode_flags v0 (grounded_env 1 0 0 0)
          (replicate 768 (0, 0) @ replicate 98 (2, 0) @ ((2, 1) # replicate 39 (2, 0))
            @ replicate 93 (2, 0) @ [(2, 0)])
        = Some (grounded_env 19.56 4 1000 0,
                replicate 768 (False, False) @ replicate 98 (False, False) @ replicate 40 (False, False)
                @ replicate 93 (False, False) @ [(True, True)])"
    by (simp only: episode_flags_append s1 s2 s3 s4 s5 option.case prod.case)
  then show ?main unfolding acts f .
qed

subsection \<open>Falling off a ledge without a movement command\<close>

text \<open>
  From \<^verbatim>\<open>reset\<close> in v0: four steps to the right, a jump that lands on the left
  end of the first platform, and one step to the left, which takes the player
  off the platform.
\<close>

lemma onto_platform_and_off:
  "final_env v0 (grounded_env 1 0 0 0)
     (replicate 4 (2, 0) @ [(2, 1)] @ replicate 29 (2, 0) @ [(1, 0)]) =
     Some (plain_env (3.64, 1.688, - 4, - 0.6) 35 30)"
  by (simp add: final_env_def step_defs v0_fields reset_result_def reset_body_def grounded_env_def init_env_def plain_env_def numeral_eq_Suc)

lemma falling_idle_step:
  "step v0 (plain_env (3.64, 1.688, - 4, - 0.6) 35 30) (0, 0) =
     Inr (plain_env (3.64, 1.664, 0, - 1.2) 36 29,
          \<lparr>obs = [3.64, 1.664, 0, - 1.2, 29 / 60, 16.36, 6.36, 0], reward = - 0.06,
            terminated = False, truncated = False\<rparr>)"
  by (simp add: step_defs v0_fields plain_env_def)

text \<open>
  C9 fails on the code, airborne meaning on no surface (\<^verbatim>\<open>_on_ground\<close> false).
  After walking off the platform the player is in the air before and after
  the next step, with no movement command and \<^verbatim>\<open>is_jumping\<close> false: the reward
  of that step is the step penalty plus the idle penalty.
\<close>

theorem idle_penalty_condition_counterexample:
  "reset v0 None init_env = Inr (grounded_env 1 0 0 0, [1, 0, 0, 0, 0, 19, 9, 1])
   \<and> (final_env v0 (grounded_env 1 0 0 0)
     (replicate 4 (2, 0) @ [(2, 1)] @ replicate 29 (2, 0) @ [(1, 0)]) =
     Some (plain_env (3.64, 1.688, - 4, - 0.6) 35 30)
   \<and> step v0 (plain_env (3.64, 1.688, - 4, - 0.6) 35 30) (0, 0) =
     Inr (plain_env (3.64, 1.664, 0, - 1.2) 36 29,
          \<lparr>obs = [3.64, 1.664, 0, - 1.2, 29 / 60, 16.36, 6.36, 0], reward = - 0.01 + - 0.05,
            terminated = False, truncated = False\<rparr>)
   \<and> \<not> on_ground v0 3.64 1.688 \<and> \<not> on_ground v0 3.64 1.664
   \<and> \<not> is_jumping (plain_env (3.64, 1.688, - 4, - 0.6) 35 30)
   \<and> \<not> is_jumping (plain_env (3.64, 1.664, 0, - 1.2) 36 29))" (is "_ \<and> ?main")
proof (rule conjI [OF reset_fresh])
  have g: "\<not> on_ground v0 3.64 1.688" "\<not> on_ground v0 3.64 1.664"
    by (simp_all add: on_ground_def v0_fields)
  have j: "\<not> is_jumping (plain_env (3.64, 1.688, - 4, - 0.6) 35 30)"
          "\<not> is_jumping (plain_env (3.64, 1.664, 0, - 1.2) 36 29)"
    by (simp_all add: plain_env_def)
  show ?main using onto_platform_and_off falling_idle_step g j by simp
qed

theorem idle_penalty_condition_witness:
  "state (plain_env (3.64, 1.688, - 4, - 0.6) 35 30) = Some (3.64, 1.688, - 4, - 0.6)
   \<and> step v0 (plain_env (3.64, 1.688, - 4, - 0.6) 35 30) (0, 0) =
     Inr (plain_env (3.64, 1.664, 0, - 1.2) 36 29,
          \<lparr>obs = [3.64, 1.664, 0, - 1.2, 29 / 60, 16.36, 6.36, 0], reward = - 0.06,
            terminated = False, truncated = False\<rparr>)
   \<and> state (plain_env (3.64, 1.664, 0, - 1.2) 36 29) = Some (3.64, 1.664, 0, - 1.2)
   \<and> version v0 = V0
   \<and> \<not> jumping_flag v0 (plain_env (3.64, 1.688, - 4, - 0.6) 35 30) (3.64, 1.688, - 4, - 0.6) 0
   \<and> \<bar>0::real\<bar> < 0.001
   \<and> jump_held_penalty v0 0 = 0 \<and> progress_reward v0 3.64 3.64 = 0
   \<and> ascent_reward v0 1.688 1.664 = 0
   \<and> \<not> landing_now v0 False 3.64 1.664 (- 1.2) \<and> \<not> reached_flag v0 3.64 1.664
   \<and> reward \<lparr>obs = [3.64, 1.664, 0, - 1.2, 29 / 60, 16.36, 6.36, 0], reward = - 0.06,
            terminated = False, truncated = False\<rparr>
       = 0 + 0 + 0 - 0.01 + - 0.05 + 0 + 0 + 0"
proof -
  let ?e = "plain_env (3.64, 1.688, - 4, - 0.6) 35 30"
  let ?e' = "plain_env (3.64, 1.664, 0, - 1.2) 36 29"
  let ?r = "\<lparr>obs = [3.64, 1.664, 0, - 1.2, 29 / 60, 16.36, 6.36, 0], reward = - 0.06,
            terminated = False, truncated = False\<rparr>"
  have h1: "state ?e = Some (3.64, 1.688, - 4, - 0.6)" by (simp add: plain_env_def)
  have h2: "step v0 ?e (0, 0) = Inr (?e', ?r)" by (rule falling_idle_step)
  have h3: "state ?e' = Some (3.64, 1.664, 0, - 1.2)" by (simp add: plain_env_def)
  have v: "version v0 = V0" by (simp add: v0_fields)
  have jf: "\<not> jumping_flag v0 ?e (3.64, 1.688, - 4, - 0.6) 0"
    by (simp add: jumping_flag_def jump_triggers_def jump_pressed_def plain_env_def)
  have t1: "jump_held_penalty v0 0 = 0" by (simp add: jump_held_penalty_def)
  have t2: "progress_reward v0 3.64 3.64 = 0" by (simp add: progress_reward_def)
  have t3: "ascent_reward v0 1.688 1.664 = 0" by (simp add: ascent_reward_def)
  have t4: "\<not> landing_now v0 False 3.64 1.664 (- 1.2)" by (simp add: landing_now_def)
  have t5: "\<not> reached_flag v0 3.64 1.664" by (simp add: reached_flag_def v0_fields)
  have c: "reward ?r = 0 + 0 + 0 - 0.01 + - 0.05 + 0 + 0 + 0"
    using idle_penalty_condition [OF h1 h2 h3] by simp
  show ?thesis
    by (intro conjI, rule h1, rule h2, rule h3, rule v, rule jf, simp, rule t1, rule t2, rule t3,
        rule t4, rule t5, rule c)
qed

end
